theory Spec2Isabelle
  imports Main "HOL-Library.Word" "HOL-Library.AList" "HOL-Library.Sublist"
    "HOL-Library.Char_ord" "HOL-Library.List_Lexorder"
begin

unbundle bit_operations_syntax

section \<open>The manifest builder of cvec-db (src/cvec\_db/cli.py)\<close>

text \<open>
  The development embeds \<^verbatim>\<open>create_manifest\<close> and the \<^verbatim>\<open>manifest\<close> command of
  \<^verbatim>\<open>cli.py\<close>. The program is a sequence of calls into the Python standard library
  (pathlib, hashlib, json, datetime), so the embedding starts with a model of the part of
  each library the program uses, written from the library's documented behaviour on a
  POSIX system, and then translates the two functions line by line.
\<close>

subsection \<open>hashlib: SHA-256 (FIPS 180-4)\<close>

type_synonym byte = "8 word"
type_synonym u32 = "32 word"

definition K256 :: "u32 list" where
  "K256 = [
    0x428A2F98, 0x71374491, 0xB5C0FBCF, 0xE9B5DBA5, 0x3956C25B, 0x59F111F1, 0x923F82A4, 0xAB1C5ED5,
    0xD807AA98, 0x12835B01, 0x243185BE, 0x550C7DC3, 0x72BE5D74, 0x80DEB1FE, 0x9BDC06A7, 0xC19BF174,
    0xE49B69C1, 0xEFBE4786, 0x0FC19DC6, 0x240CA1CC, 0x2DE92C6F, 0x4A7484AA, 0x5CB0A9DC, 0x76F988DA,
    0x983E5152, 0xA831C66D, 0xB00327C8, 0xBF597FC7, 0xC6E00BF3, 0xD5A79147, 0x06CA6351, 0x14292967,
    0x27B70A85, 0x2E1B2138, 0x4D2C6DFC, 0x53380D13, 0x650A7354, 0x766A0ABB, 0x81C2C92E, 0x92722C85,
    0xA2BFE8A1, 0xA81A664B, 0xC24B8B70, 0xC76C51A3, 0xD192E819, 0xD6990624, 0xF40E3585, 0x106AA070,
    0x19A4C116, 0x1E376C08, 0x2748774C, 0x34B0BCB5, 0x391C0CB3, 0x4ED8AA4A, 0x5B9CCA4F, 0x682E6FF3,
    0x748F82EE, 0x78A5636F, 0x84C87814, 0x8CC70208, 0x90BEFFFA, 0xA4506CEB, 0xBEF9A3F7, 0xC67178F2]"

definition H256 :: "u32 list" where
  "H256 = [0x6A09E667, 0xBB67AE85, 0x3C6EF372, 0xA54FF53A,
           0x510E527F, 0x9B05688C, 0x1F83D9AB, 0x5BE0CD19]"

definition rotr :: "nat \<Rightarrow> u32 \<Rightarrow> u32" where
  "rotr n x = take_bit 32 (drop_bit n x OR push_bit (32 - n) x)"

definition Ch :: "u32 \<Rightarrow> u32 \<Rightarrow> u32 \<Rightarrow> u32" where
  "Ch x y z = (x AND y) XOR (NOT x AND z)"

definition Maj :: "u32 \<Rightarrow> u32 \<Rightarrow> u32 \<Rightarrow> u32" where
  "Maj x y z = (x AND y) XOR (x AND z) XOR (y AND z)"

definition bsig0 :: "u32 \<Rightarrow> u32" where
  "bsig0 x = rotr 2 x XOR rotr 13 x XOR rotr 22 x"

definition bsig1 :: "u32 \<Rightarrow> u32" where
  "bsig1 x = rotr 6 x XOR rotr 11 x XOR rotr 25 x"

definition ssig0 :: "u32 \<Rightarrow> u32" where
  "ssig0 x = rotr 7 x XOR rotr 18 x XOR drop_bit 3 x"

definition ssig1 :: "u32 \<Rightarrow> u32" where
  "ssig1 x = rotr 17 x XOR rotr 19 x XOR drop_bit 10 x"

text \<open>Big-endian 32-bit words of a byte string.\<close>

fun be32 :: "byte list \<Rightarrow> u32 list" where
  "be32 (a # b # c # d # bs) =
     (push_bit 24 (ucast a) OR push_bit 16 (ucast b) OR push_bit 8 (ucast c) OR ucast d) # be32 bs"
| "be32 _ = []"

text \<open>One round on the working variables \<open>a..h\<close> with constant \<open>k\<close> and schedule word \<open>w\<close>.\<close>

fun sha_round :: "u32 list \<Rightarrow> u32 \<Rightarrow> u32 \<Rightarrow> u32 list" where
  "sha_round [a, b, c, d, e, f, g, h] k w =
     [h + bsig1 e + Ch e f g + k + w + (bsig0 a + Maj a b c), a, b, c,
      d + (h + bsig1 e + Ch e f g + k + w), e, f, g]"
| "sha_round s _ _ = s"

text \<open>
  The 64 rounds, one per constant; \<open>w\<close> is the sliding window of the last sixteen
  schedule words, \<open>w ! 0\<close> being the word of the current round.
\<close>

fun rounds :: "u32 list \<Rightarrow> u32 list \<Rightarrow> u32 list \<Rightarrow> u32 list" where
  "rounds [] s w = s"
| "rounds (k # ks) s w =
     rounds ks (sha_round s k (w ! 0))
       (tl w @ [ssig1 (w ! 14) + w ! 9 + ssig0 (w ! 1) + w ! 0])"

definition compress :: "u32 list \<Rightarrow> byte list \<Rightarrow> u32 list" where
  "compress hs block = map2 (+) hs (rounds K256 hs (be32 block))"

definition be_bytes32 :: "u32 \<Rightarrow> byte list" where
  "be_bytes32 w = [ucast (drop_bit 24 w), ucast (drop_bit 16 w), ucast (drop_bit 8 w), ucast w]"

definition be_bytes64 :: "nat \<Rightarrow> byte list" where
  "be_bytes64 n = map (\<lambda>i. of_nat (n div 2 ^ (8 * i))) [7, 6, 5, 4, 3, 2, 1, 0]"

definition pad :: "byte list \<Rightarrow> byte list" where
  "pad m = m @ [0x80] @ replicate ((119 - length m mod 64) mod 64) 0
             @ be_bytes64 (8 * length m mod 2 ^ 64)"

function blocks :: "byte list \<Rightarrow> byte list list" where
  "blocks bs = (if length bs < 64 then [] else take 64 bs # blocks (drop 64 bs))"
  by pat_completeness auto
termination
  by (relation "measure length") auto

definition sha256 :: "byte list \<Rightarrow> byte list" where
  "sha256 m = concat (map be_bytes32 (foldl compress H256 (blocks (pad m))))"

definition hexdigit :: "nat \<Rightarrow> char" where
  "hexdigit n = ''0123456789abcdef'' ! n"

definition hex :: "byte list \<Rightarrow> string" where
  "hex bs = concat (map (\<lambda>b. [hexdigit (unat b div 16), hexdigit (unat b mod 16)]) bs)"

text \<open>
  A hash object of \<^verbatim>\<open>hashlib\<close>. The library documents that feeding \<open>a\<close> and then \<open>b\<close>
  is the same as feeding \<open>a + b\<close>, so the state of the object is the bytes fed so far.
\<close>

type_synonym sha256_obj = "byte list"

definition sha256_new :: sha256_obj where
  "sha256_new = []"

definition update :: "sha256_obj \<Rightarrow> byte list \<Rightarrow> sha256_obj" where
  "update h chunk = h @ chunk"

definition hexdigest :: "sha256_obj \<Rightarrow> string" where
  "hexdigest h = hex (sha256 h)"

subsection \<open>The file system\<close>

text \<open>
  A path is its list of components; the program only ever joins a name to \<open>output_dir\<close>,
  so \<open>.\<close>, \<open>..\<close>, symbolic links and the working directory are left out. A file system is
  an association list from paths to nodes, in the order \<^verbatim>\<open>scandir\<close> reports them. A
  regular file carries its bytes, whether the process may open it for reading and for
  writing, and the offset of a byte the device cannot deliver, if there is one. A
  directory carries whether the process may create entries in it. Listing and search
  permissions of directories, the umask and a full disk are not modelled.
\<close>

type_synonym path = "string list"

datatype node =
    File (content: "byte list") (readable: bool) (writable: bool) (bad_offset: "nat option")
  | Dir (dir_writable: bool)

type_synonym filesystem = "(path \<times> node) list"

datatype error =
    FileNotFoundError path
  | IsADirectoryError path
  | NotADirectoryError path
  | PermissionError path
  | OSError path
  | Exit nat

definition path_exists :: "filesystem \<Rightarrow> path \<Rightarrow> bool" where
  "path_exists fs p = (map_of fs p \<noteq> None)"

definition is_dir :: "filesystem \<Rightarrow> path \<Rightarrow> bool" where
  "is_dir fs p = (case map_of fs p of Some (Dir dw) \<Rightarrow> True | _ \<Rightarrow> False)"

definition scandir :: "filesystem \<Rightarrow> path \<Rightarrow> string list" where
  "scandir fs d = map (last \<circ> fst) (filter (\<lambda>(p, n). p \<noteq> [] \<and> butlast p = d) fs)"

text \<open>
  \<^verbatim>\<open>fnmatch\<close> on POSIX (case-sensitive), for patterns built from literal characters,
  \<open>*\<close> and \<open>?\<close>. Arguments are in Python's order: the name, then the pattern.
\<close>

fun fnmatch :: "string \<Rightarrow> string \<Rightarrow> bool" where
  "fnmatch [] [] = True"
| "fnmatch [] (p # ps) = (p = CHR ''*'' \<and> fnmatch [] ps)"
| "fnmatch (c # cs) [] = False"
| "fnmatch (c # cs) (p # ps) =
     (if p = CHR ''*'' then fnmatch (c # cs) ps \<or> fnmatch cs (p # ps)
      else if p = CHR ''?'' then fnmatch cs ps
      else p = c \<and> fnmatch cs ps)"

text \<open>
  \<^verbatim>\<open>Path.glob\<close> with a one-component pattern: the entries of the directory whose name
  matches, of any kind, hidden ones included; nothing when the path is not a directory.
\<close>

definition path_glob :: "filesystem \<Rightarrow> path \<Rightarrow> string \<Rightarrow> path list" where
  "path_glob fs d pat =
     (if is_dir fs d then map (\<lambda>n. d @ [n]) (filter (\<lambda>n. fnmatch n pat) (scandir fs d)) else [])"

record handle =
  h_path :: path
  h_data :: "byte list"
  h_pos :: nat
  h_bad :: "nat option"

definition open_rb :: "filesystem \<Rightarrow> path \<Rightarrow> error + handle" where
  "open_rb fs p =
     (case map_of fs p of
        None \<Rightarrow> Inl (FileNotFoundError p)
      | Some (Dir dw) \<Rightarrow> Inl (IsADirectoryError p)
      | Some (File c r wr b) \<Rightarrow>
          if r then Inr \<lparr>h_path = p, h_data = c, h_pos = 0, h_bad = b\<rparr>
          else Inl (PermissionError p))"

text \<open>\<^verbatim>\<open>f.read(n)\<close>: the next at most \<open>n\<close> bytes; empty at the end of the file.\<close>

definition file_read :: "handle \<Rightarrow> nat \<Rightarrow> error + (byte list \<times> handle)" where
  "file_read f n =
     (let chunk = take n (drop (h_pos f) (h_data f)) in
      if (case h_bad f of None \<Rightarrow> False
          | Some k \<Rightarrow> h_pos f \<le> k \<and> k < h_pos f + length chunk)
      then Inl (OSError (h_path f))
      else Inr (chunk, f\<lparr>h_pos := h_pos f + length chunk\<rparr>))"

record stat_result =
  st_size :: nat

text \<open>
  \<^verbatim>\<open>Path.stat\<close>. The size of a directory is that of its table of entries (4096 is
  the usual block); \<open>create_manifest\<close> never gets there, since opening a directory fails.
\<close>

definition path_stat :: "filesystem \<Rightarrow> path \<Rightarrow> error + stat_result" where
  "path_stat fs p =
     (case map_of fs p of
        None \<Rightarrow> Inl (FileNotFoundError p)
      | Some (Dir dw) \<Rightarrow> Inr \<lparr>st_size = 4096\<rparr>
      | Some (File c r wr b) \<Rightarrow> Inr \<lparr>st_size = length c\<rparr>)"

text \<open>The text is ASCII (\<^verbatim>\<open>json.dumps\<close> escapes the rest), one byte per character.\<close>

definition encode :: "string \<Rightarrow> byte list" where
  "encode s = map of_char s"

text \<open>
  \<^verbatim>\<open>Path.write_text\<close>: open for writing and write. Opening truncates an existing
  file, which the process must be allowed to write, and creates a missing one, which
  takes a directory the process may write to; the new file is readable and writable.
\<close>

definition write_text :: "filesystem \<Rightarrow> path \<Rightarrow> string \<Rightarrow> error + filesystem" where
  "write_text fs p txt =
     (if p = [] then Inl (IsADirectoryError p)
      else case map_of fs (butlast p) of
        None \<Rightarrow> Inl (FileNotFoundError p)
      | Some (File c r wr b) \<Rightarrow> Inl (NotADirectoryError p)
      | Some (Dir dw) \<Rightarrow>
          (case map_of fs p of
             None \<Rightarrow>
               if dw then Inr (AList.update p (File (encode txt) True True None) fs)
               else Inl (PermissionError p)
           | Some (Dir dw') \<Rightarrow> Inl (IsADirectoryError p)
           | Some (File c r wr b) \<Rightarrow>
               if wr then Inr (AList.update p (File (encode txt) r wr b) fs)
               else Inl (PermissionError p)))"

text \<open>What a path holds, when it is a regular file.\<close>

definition read_bytes :: "filesystem \<Rightarrow> path \<Rightarrow> byte list option" where
  "read_bytes fs p = (case map_of fs p of Some (File c r wr b) \<Rightarrow> Some c | _ \<Rightarrow> None)"

subsection \<open>json.dumps with an indent\<close>

text \<open>
  The values \<^verbatim>\<open>json.dumps\<close> is given here: \<open>None\<close>, booleans, integers, strings,
  lists, and dictionaries with string keys in insertion order. Floats are left out.
\<close>

datatype json =
    JNull
  | JBool bool
  | JInt int
  | JStr string
  | JList "json list"
  | JDict "(string \<times> json) list"

definition digit :: "nat \<Rightarrow> char" where
  "digit n = ''0123456789'' ! n"

fun digits :: "nat \<Rightarrow> string" where
  "digits n = (if n < 10 then [digit n] else digits (n div 10) @ [digit (n mod 10)])"

declare digits.simps [simp del]

definition int_repr :: "int \<Rightarrow> string" where
  "int_repr i = (if i < 0 then CHR ''-'' # digits (nat (- i)) else digits (nat i))"

text \<open>
  \<^verbatim>\<open>encode_basestring_ascii\<close>: the short escapes, \<^verbatim>\<open>\u00xx\<close> for every other
  character outside the range from the space to the tilde.
\<close>

definition escape_char :: "char \<Rightarrow> string" where
  "escape_char c =
     (if c = CHR 0x22 then [CHR 0x5C, CHR 0x22]
      else if c = CHR 0x5C then [CHR 0x5C, CHR 0x5C]
      else if c = CHR 0x0A then [CHR 0x5C, CHR ''n'']
      else if c = CHR 0x0D then [CHR 0x5C, CHR ''r'']
      else if c = CHR 0x09 then [CHR 0x5C, CHR ''t'']
      else if c = CHR 0x08 then [CHR 0x5C, CHR ''b'']
      else if c = CHR 0x0C then [CHR 0x5C, CHR ''f'']
      else if (of_char c :: nat) < 32 \<or> 126 < (of_char c :: nat)
        then [CHR 0x5C, CHR ''u'', CHR ''0'', CHR ''0'',
              hexdigit (of_char c div 16), hexdigit (of_char c mod 16)]
      else [c])"

definition encode_basestring :: "string \<Rightarrow> string" where
  "encode_basestring s = [CHR 0x22] @ concat (map escape_char s) @ [CHR 0x22]"

definition newline_indent :: "nat \<Rightarrow> nat \<Rightarrow> string" where
  "newline_indent ind lvl = CHR 0x0A # replicate (ind * lvl) CHR '' ''"

fun join :: "string \<Rightarrow> string list \<Rightarrow> string" where
  "join sep [] = []"
| "join sep [x] = x"
| "join sep (x # y # ys) = x @ sep @ join sep (y # ys)"

text \<open>
  The encoder at indent \<open>ind\<close> and nesting level \<open>lvl\<close>: the item separator is a comma,
  the key separator a colon and a space, an empty container is written without a line
  break.
\<close>

fun iterencode :: "nat \<Rightarrow> nat \<Rightarrow> json \<Rightarrow> string"
  and iterencode_list :: "nat \<Rightarrow> nat \<Rightarrow> json list \<Rightarrow> string list"
  and iterencode_dict :: "nat \<Rightarrow> nat \<Rightarrow> (string \<times> json) list \<Rightarrow> string list"
where
  "iterencode ind lvl JNull = ''null''"
| "iterencode ind lvl (JBool b) = (if b then ''true'' else ''false'')"
| "iterencode ind lvl (JInt i) = int_repr i"
| "iterencode ind lvl (JStr s) = encode_basestring s"
| "iterencode ind lvl (JList xs) =
     (if xs = [] then ''[]''
      else ''['' @ newline_indent ind (lvl + 1)
           @ join ('','' @ newline_indent ind (lvl + 1)) (iterencode_list ind (lvl + 1) xs)
           @ newline_indent ind lvl @ '']'')"
| "iterencode ind lvl (JDict kvs) =
     (if kvs = [] then ''{}''
      else ''{'' @ newline_indent ind (lvl + 1)
           @ join ('','' @ newline_indent ind (lvl + 1)) (iterencode_dict ind (lvl + 1) kvs)
           @ newline_indent ind lvl @ ''}'')"
| "iterencode_list ind lvl [] = []"
| "iterencode_list ind lvl (x # xs) = iterencode ind lvl x # iterencode_list ind lvl xs"
| "iterencode_dict ind lvl [] = []"
| "iterencode_dict ind lvl ((k, v) # kvs) =
     (encode_basestring k @ '': '' @ iterencode ind lvl v) # iterencode_dict ind lvl kvs"

definition json_dumps :: "nat \<Rightarrow> json \<Rightarrow> string" where
  "json_dumps ind v = iterencode ind 0 v"

text \<open>Looking a key up in a dictionary.\<close>

fun dict_get :: "json \<Rightarrow> string \<Rightarrow> json option" where
  "dict_get (JDict kvs) k = map_of kvs k"
| "dict_get v k = None"

fun dict_keys :: "json \<Rightarrow> string list" where
  "dict_keys (JDict kvs) = map fst kvs"
| "dict_keys v = []"

subsection \<open>datetime\<close>

text \<open>
  The reading of the clock, \<^verbatim>\<open>datetime.now(timezone.utc)\<close>: an aware datetime whose
  offset is zero. \<^verbatim>\<open>isoformat\<close> leaves the fraction out when the microseconds are 0.
\<close>

record datetime =
  year :: nat
  month :: nat
  day :: nat
  hour :: nat
  minute :: nat
  second :: nat
  microsecond :: nat

definition zpad :: "nat \<Rightarrow> nat \<Rightarrow> string" where
  "zpad w n = replicate (w - length (digits n)) CHR ''0'' @ digits n"

definition isoformat :: "datetime \<Rightarrow> string" where
  "isoformat dt =
     zpad 4 (year dt) @ ''-'' @ zpad 2 (month dt) @ ''-'' @ zpad 2 (day dt) @ ''T''
     @ zpad 2 (hour dt) @ '':'' @ zpad 2 (minute dt) @ '':'' @ zpad 2 (second dt)
     @ (if microsecond dt \<noteq> 0 then ''.'' @ zpad 6 (microsecond dt) else [])
     @ ''+00:00''"

text \<open>
  The datetimes the clock can show, and the number a string of decimal digits denotes
  (used to read the fields of a timestamp back).
\<close>

definition valid_datetime :: "datetime \<Rightarrow> bool" where
  "valid_datetime dt \<longleftrightarrow>
     1 \<le> year dt \<and> year dt \<le> 9999 \<and> 1 \<le> month dt \<and> month dt \<le> 12 \<and>
     1 \<le> day dt \<and> day dt \<le> 31 \<and> hour dt < 24 \<and> minute dt < 60 \<and> second dt < 60 \<and>
     microsecond dt < 1000000"



subsection \<open>create\_manifest\<close>

text \<open>
  Lines 46 and 47, \<^verbatim>\<open>for chunk in iter(lambda: f.read(8192), b""): sha256.update(chunk)\<close>:
  read until a read returns nothing.
\<close>

function hash_chunks :: "handle \<Rightarrow> sha256_obj \<Rightarrow> error + sha256_obj" where
  "hash_chunks f s =
     (case file_read f 8192 of
        Inl e \<Rightarrow> Inl e
      | Inr (chunk, f') \<Rightarrow> if chunk = [] then Inr s else hash_chunks f' (update s chunk))"
  by pat_completeness auto
termination
proof (relation "measure (\<lambda>(f, s). length (h_data f) - h_pos f)")
  show "wf (measure (\<lambda>(f, s). length (h_data f) - h_pos f))"
    by simp
next
  fix f :: handle and s :: sha256_obj and x chunk f'
  assume r: "file_read f 8192 = Inr x" and x: "(chunk, f') = x" and ne: "chunk \<noteq> []"
  from r x have c: "chunk = take 8192 (drop (h_pos f) (h_data f))"
    and f': "f' = f\<lparr>h_pos := h_pos f + length chunk\<rparr>"
    by (auto simp: file_read_def Let_def split: if_splits)
  from c ne have "h_pos f < length (h_data f)"
    by (cases "h_pos f < length (h_data f)") auto
  moreover from ne have "0 < length chunk"
    by simp
  ultimately have "length (h_data f) - (h_pos f + length chunk) < length (h_data f) - h_pos f"
    by arith
  then show "((f', update s chunk), (f, s)) \<in> measure (\<lambda>(f, s). length (h_data f) - h_pos f)"
    using f' by simp
qed

declare hash_chunks.simps [simp del]

text \<open>The dictionary appended at lines 49 to 53.\<close>

definition file_entry :: "string \<Rightarrow> nat \<Rightarrow> string \<Rightarrow> json" where
  "file_entry name nbytes digest =
     JDict [(''name'', JStr name), (''size'', JInt (int nbytes)), (''sha256'', JStr digest)]"

text \<open>
  The loop of lines 42 to 53 over the sorted paths, \<open>parquet_files\<close> being the list built
  so far. An exception leaves the loop, and the function, at once.
\<close>

fun scan_files :: "filesystem \<Rightarrow> path list \<Rightarrow> json list \<Rightarrow> error + json list" where
  "scan_files fs [] parquet_files = Inr parquet_files"
| "scan_files fs (pq_file # rest) parquet_files =
     (case open_rb fs pq_file of
        Inl e \<Rightarrow> Inl e
      | Inr f \<Rightarrow>
         (case hash_chunks f sha256_new of
            Inl e \<Rightarrow> Inl e
          | Inr sha \<Rightarrow>
             (case path_stat fs pq_file of
                Inl e \<Rightarrow> Inl e
              | Inr st \<Rightarrow>
                  scan_files fs rest
                    (parquet_files @ [file_entry (last pq_file) (st_size st) (hexdigest sha)]))))"

text \<open>
  The dictionary of lines 55 to 61. \<open>MANIFEST_SCHEMA_VERSION\<close> is imported from the
  package's \<^verbatim>\<open>__init__\<close>, which is not among the sources: it is the parameter \<open>msv\<close>.
\<close>

definition manifest_record :: "json \<Rightarrow> datetime \<Rightarrow> (string \<times> json) list \<Rightarrow> json list \<Rightarrow> json" where
  "manifest_record msv now stats parquet_files =
     JDict [(''schema_version'', msv),
            (''generated_at'', JStr (isoformat now)),
            (''cvec_db_version'', JStr ''0.1.0''),
            (''stats'', JDict stats),
            (''files'', JList parquet_files)]"

text \<open>
  \<open>create_manifest\<close>, with the schema version, the clock and the file system as
  arguments; it returns the file system it leaves behind beside its result.
\<close>

definition create_manifest ::
  "json \<Rightarrow> datetime \<Rightarrow> filesystem \<Rightarrow> path \<Rightarrow> (string \<times> json) list \<Rightarrow> (error + path) \<times> filesystem" where
  "create_manifest msv now fs output_dir stats =
     (case scan_files fs (sort (path_glob fs output_dir ''*.parquet'')) [] of
        Inl e \<Rightarrow> (Inl e, fs)
      | Inr parquet_files \<Rightarrow>
          (let manifest = manifest_record msv now stats parquet_files;
               manifest_path = output_dir @ [''manifest.json'']
           in case write_text fs manifest_path (json_dumps 2 manifest) of
                Inl e \<Rightarrow> (Inl e, fs)
              | Inr fs' \<Rightarrow> (Inr manifest_path, fs')))"

subsection \<open>The manifest command\<close>

record world =
  fsys :: filesystem
  stdout :: "string list"
  stderr :: "string list"

text \<open>\<^verbatim>\<open>str\<close> of a path, as the f-strings print it.\<close>

definition path_str :: "path \<Rightarrow> string" where
  "path_str p = join ''/'' p"

text \<open>
  The body of the command (lines 181 to 196) over the manifest builder it calls, \<open>builder\<close>,
  and over \<open>read_rows\<close>, the number of rows \<^verbatim>\<open>polars\<close> reads from a file or its error.
\<close>

definition manifest_with ::
  "(filesystem \<Rightarrow> path \<Rightarrow> (string \<times> json) list \<Rightarrow> (error + path) \<times> filesystem) \<Rightarrow>
   (filesystem \<Rightarrow> path \<Rightarrow> error + nat) \<Rightarrow> world \<Rightarrow> path option \<Rightarrow> (error + unit) \<times> world" where
  "manifest_with builder read_rows w data_dir_opt =
     (let data_dir = (case data_dir_opt of None \<Rightarrow> [''data''] | Some d \<Rightarrow> d) in
      if \<not> path_exists (fsys w) data_dir then
        (Inl (Exit 1),
         w\<lparr>stderr := stderr w @ [''Error: Directory '' @ path_str data_dir @ '' does not exist'']\<rparr>)
      else
        let cves_parquet = data_dir @ [''cves.parquet''] in
        case (if path_exists (fsys w) cves_parquet
              then (case read_rows (fsys w) cves_parquet of
                      Inl e \<Rightarrow> Inl e
                    | Inr n \<Rightarrow> Inr [(''cves'', JInt (int n))])
              else Inr []) of
          Inl e \<Rightarrow> (Inl e, w)
        | Inr stats \<Rightarrow>
            (case builder (fsys w) data_dir stats of
               (Inl e, fs') \<Rightarrow> (Inl e, w\<lparr>fsys := fs'\<rparr>)
             | (Inr manifest_path, fs') \<Rightarrow>
                 (Inr (), w\<lparr>fsys := fs',
                            stdout := stdout w @ [''Manifest created: '' @ path_str manifest_path]\<rparr>)))"

definition manifest ::
  "json \<Rightarrow> datetime \<Rightarrow> (filesystem \<Rightarrow> path \<Rightarrow> error + nat) \<Rightarrow> world \<Rightarrow> path option \<Rightarrow>
   (error + unit) \<times> world" where
  "manifest msv now read_rows w data_dir_opt =
     manifest_with (create_manifest msv now) read_rows w data_dir_opt"

text \<open>
  The status the process ends with: what \<^verbatim>\<open>typer.Exit\<close> carries, 1 for any other
  exception, 0 otherwise.
\<close>

definition exit_status :: "error + 'a \<Rightarrow> nat" where
  "exit_status r = (case r of Inr v \<Rightarrow> 0 | Inl (Exit n) \<Rightarrow> n | Inl e \<Rightarrow> 1)"

subsection \<open>A directory to run the program on\<close>

text \<open>
  A data directory as a build leaves it, listed in no particular order: two data files
  (\<open>b.parquet\<close> is empty and comes first in the listing), an earlier manifest, a text
  file, and a subdirectory with a data file of its own.
\<close>

definition example_fs :: filesystem where
  "example_fs =
     [([''data''], Dir True),
      ([''data'', ''manifest.json''], File [0x7B, 0x7D] True True None),
      ([''data'', ''b.parquet''], File [] True True None),
      ([''data'', ''sub''], Dir True),
      ([''data'', ''sub'', ''c.parquet''], File [0x01] True True None),
      ([''data'', ''notes.txt''], File [0x68, 0x69] True True None),
      ([''data'', ''a.parquet''], File [0x41, 0x41, 0x41, 0x41, 0x41, 0x41, 0x41, 0x41] True True None)]"

definition example_now :: datetime where
  "example_now = \<lparr>year = 2024, month = 1, day = 2, hour = 3, minute = 4, second = 5,
                   microsecond = 0\<rparr>"


text \<open>
  The same kind of directory with a data file the process may not read, and with one
  that has a byte the device does not deliver.
\<close>

definition locked_fs :: filesystem where
  "locked_fs =
     [([''data''], Dir True),
      ([''data'', ''manifest.json''], File [0x7B, 0x7D] True True None),
      ([''data'', ''b.parquet''], File [0x01, 0x02, 0x03] False True None),
      ([''data'', ''a.parquet''], File [0x41] True True None)]"

definition damaged_fs :: filesystem where
  "damaged_fs =
     [([''data''], Dir True),
      ([''data'', ''manifest.json''], File [0x7B, 0x7D] True True None),
      ([''data'', ''a.parquet''], File [0x41, 0x42, 0x43] True True (Some 1))]"

text \<open>
  Directories without data files: one in which \<open>manifest.json\<close> is itself a directory,
  one in which it is a file the process may not write, one in which the process may not
  create entries, and one that holds nothing but a text file.
\<close>

definition blocked_fs :: filesystem where
  "blocked_fs =
     [([''data''], Dir True),
      ([''data'', ''manifest.json''], Dir True)]"

definition readonly_manifest_fs :: filesystem where
  "readonly_manifest_fs =
     [([''data''], Dir True),
      ([''data'', ''manifest.json''], File [0x7B, 0x7D] True False None)]"

definition readonly_dir_fs :: filesystem where
  "readonly_dir_fs =
     [([''data''], Dir False)]"

definition plain_fs :: filesystem where
  "plain_fs =
     [([''data''], Dir True),
      ([''data'', ''notes.txt''], File [0x68, 0x69] True True None)]"

section \<open>Properties of the library model\<close>

subsection \<open>SHA-256 on test vectors\<close>

lemma replicate_numeral: "replicate (numeral k) x = x # replicate (pred_numeral k) x"
  by (simp add: numeral_eq_Suc)

lemmas sha_defs = pad_def be_bytes64_def be_bytes32_def K256_def H256_def bsig0_def bsig1_def
  ssig0_def ssig1_def Ch_def Maj_def rotr_def compress_def sha256_def hex_def hexdigit_def
  replicate_numeral

lemma sha256_empty:
  "hex (sha256 []) = ''e3b0c44298fc1c149afbf4c8996fb92427ae41e4649b934ca495991b7852b855''"
  by (simp add: sha_defs)

lemma sha256_AAAAAAAA:
  "hex (sha256 [0x41, 0x41, 0x41, 0x41, 0x41, 0x41, 0x41, 0x41]) =
     ''c34ab6abb7b2bb595bc25c3b388c872fd1d575819a8f55cc689510285e212385''"
  by (simp add: sha_defs)

subsection \<open>Matching and the read loop\<close>

lemma fnmatch_literal:
  "CHR ''*'' \<notin> set lit \<Longrightarrow> CHR ''?'' \<notin> set lit \<Longrightarrow> fnmatch n lit \<longleftrightarrow> n = lit"
proof (induction n lit rule: fnmatch.induct)
  case 1 then show ?case by simp
next
  case (2 p ps) then show ?case by auto
next
  case (3 c cs) then show ?case by simp
next
  case (4 c cs p ps) then show ?case by auto
qed

lemma fnmatch_star_literal:
  assumes "CHR ''*'' \<notin> set lit" "CHR ''?'' \<notin> set lit"
  shows "fnmatch n (CHR ''*'' # lit) \<longleftrightarrow> suffix lit n"
proof (induction n)
  case Nil
  show ?case using assms by (cases lit) (auto simp: fnmatch_literal)
next
  case (Cons c cs)
  have "fnmatch (c # cs) (CHR ''*'' # lit) \<longleftrightarrow> fnmatch (c # cs) lit \<or> fnmatch cs (CHR ''*'' # lit)"
    by simp
  also have "\<dots> \<longleftrightarrow> c # cs = lit \<or> suffix lit cs"
    using assms Cons.IH by (simp add: fnmatch_literal)
  also have "\<dots> \<longleftrightarrow> suffix lit (c # cs)"
    by (auto simp: suffix_Cons)
  finally show ?case .
qed

lemma fnmatch_parquet: "fnmatch n ''*.parquet'' \<longleftrightarrow> suffix ''.parquet'' n"
  using fnmatch_star_literal [of "''.parquet''" n] by simp

lemma take_drop_chunk: "take n (drop p xs) @ drop (p + length (take n (drop p xs))) xs = drop p xs"
proof -
  let ?ys = "drop p xs"
  have "drop (p + length (take n ?ys)) xs = drop (length (take n ?ys)) ?ys"
    by (simp add: add.commute)
  moreover have "take n ?ys @ drop (length (take n ?ys)) ?ys = ?ys"
  proof (cases "n \<le> length ?ys")
    case True
    then have "length (take n ?ys) = n" by simp
    then show ?thesis by (simp only: append_take_drop_id)
  next
    case False
    then have "take n ?ys = ?ys" by simp
    then show ?thesis by simp
  qed
  ultimately show ?thesis by simp
qed

lemma hash_chunks_eq:
  "hash_chunks f s =
     (case h_bad f of
        Some k \<Rightarrow> if h_pos f \<le> k \<and> k < length (h_data f) then Inl (OSError (h_path f))
                  else Inr (s @ drop (h_pos f) (h_data f))
      | None \<Rightarrow> Inr (s @ drop (h_pos f) (h_data f)))"
proof (induction f s rule: hash_chunks.induct)
  case (1 f s)
  let ?chunk = "take 8192 (drop (h_pos f) (h_data f))"
  let ?f' = "f\<lparr>h_pos := h_pos f + length ?chunk\<rparr>"
  show ?case
  proof (cases "file_read f 8192")
    case (Inl e)
    then show ?thesis
      by (subst hash_chunks.simps)
         (auto simp: file_read_def Let_def split: option.splits if_splits)
  next
    case (Inr x)
    then have x: "x = (?chunk, ?f')"
      by (auto simp: file_read_def Let_def split: if_splits)
    show ?thesis
    proof (cases "?chunk = []")
      case True
      then have "length (h_data f) \<le> h_pos f" by simp
      with Inr x True show ?thesis
        by (subst hash_chunks.simps) (auto split: option.splits)
    next
      case False
      from Inr x have nobad: "\<And>k. h_bad f = Some k \<Longrightarrow> \<not> (h_pos f \<le> k \<and> k < h_pos f + length ?chunk)"
        by (auto simp: file_read_def Let_def split: if_splits option.splits)
      have IH: "hash_chunks ?f' (update s ?chunk) =
        (case h_bad ?f' of
          Some k \<Rightarrow> if h_pos ?f' \<le> k \<and> k < length (h_data ?f') then Inl (OSError (h_path ?f'))
                  else Inr (update s ?chunk @ drop (h_pos ?f') (h_data ?f'))
        | None \<Rightarrow> Inr (update s ?chunk @ drop (h_pos ?f') (h_data ?f')))"
        using "1.IH" [OF Inr x [symmetric] False] .
      have cat: "?chunk @ drop (h_pos f + length ?chunk) (h_data f) = drop (h_pos f) (h_data f)"
        by (rule take_drop_chunk)
      from False have "h_pos f < length (h_data f)"
        by (cases "h_pos f < length (h_data f)") auto
      then have lenc: "h_pos f + length ?chunk \<le> length (h_data f)"
        by (simp add: min_def) arith
      have step: "hash_chunks f s = hash_chunks ?f' (update s ?chunk)"
        using Inr x False by (subst hash_chunks.simps) simp
      show ?thesis
        unfolding step IH using nobad cat lenc
        by (auto simp: update_def split: option.splits)
    qed
  qed
qed


subsection \<open>Sorted paths and the scan loop\<close>

lemma append_le_append_same: "d @ x \<le> d @ y \<longleftrightarrow> x \<le> y" for x y :: "'a::linorder list"
  by (induction d) simp_all

lemma sorted_names:
  "sorted ps \<Longrightarrow> \<forall>p\<in>set ps. \<exists>n. p = d @ [n] \<Longrightarrow> sorted (map last ps)"
proof (induction ps)
  case Nil
  then show ?case by simp
next
  case (Cons p ps)
  from Cons.prems obtain n where p: "p = d @ [n]" by auto
  have "last p \<le> last q" if "q \<in> set ps" for q
  proof -
    from that Cons.prems obtain m where q: "q = d @ [m]" by auto
    from that Cons.prems have "p \<le> q" by simp
    with p q have "[n] \<le> [m]" by (simp only: append_le_append_same)
    then show ?thesis using p q by auto
  qed
  with Cons show ?case by simp
qed

lemma open_hash_ok:
  assumes "map_of fs p = Some (File c True wr b)" and "\<forall>k. b = Some k \<longrightarrow> length c \<le> k"
  shows "\<exists>f. open_rb fs p = Inr f \<and> hash_chunks f sha256_new = Inr c"
  using assms by (auto simp: open_rb_def hash_chunks_eq sha256_new_def split: option.splits)

lemma scan_step_Inr:
  assumes "open_rb fs p = Inr f" and "hash_chunks f sha256_new = Inr sha" and "path_stat fs p = Inr st"
  shows "\<exists>c wr b. map_of fs p = Some (File c True wr b) \<and> (\<forall>k. b = Some k \<longrightarrow> length c \<le> k)
            \<and> sha = c \<and> st_size st = length c"
  using assms
  by (auto simp: open_rb_def path_stat_def hash_chunks_eq sha256_new_def
           split: option.splits node.splits if_splits)

lemma scan_files_Inr:
  "scan_files fs ps acc = Inr out \<Longrightarrow>
     \<exists>es. out = acc @ es \<and>
       list_all2 (\<lambda>p e. \<exists>c wr b. map_of fs p = Some (File c True wr b)
                    \<and> (\<forall>k. b = Some k \<longrightarrow> length c \<le> k)
                    \<and> e = file_entry (last p) (length c) (hex (sha256 c))) ps es"
proof (induction ps arbitrary: acc)
  case Nil
  then show ?case by simp
next
  case (Cons p ps)
  from Cons.prems obtain f sha st where
    o: "open_rb fs p = Inr f" and h: "hash_chunks f sha256_new = Inr sha"
    and s: "path_stat fs p = Inr st"
    and r: "scan_files fs ps (acc @ [file_entry (last p) (st_size st) (hexdigest sha)]) = Inr out"
    by (auto split: sum.splits)
  from scan_step_Inr [OF o h s] obtain c wr b where
    c: "map_of fs p = Some (File c True wr b)" "\<forall>k. b = Some k \<longrightarrow> length c \<le> k"
       "sha = c" "st_size st = length c"
    by blast
  from Cons.IH [OF r] obtain es where
    es: "out = (acc @ [file_entry (last p) (st_size st) (hexdigest sha)]) @ es"
    and all: "list_all2 (\<lambda>p e. \<exists>c wr b. map_of fs p = Some (File c True wr b)
                    \<and> (\<forall>k. b = Some k \<longrightarrow> length c \<le> k)
                    \<and> e = file_entry (last p) (length c) (hex (sha256 c))) ps es"
    by blast
  let ?e = "file_entry (last p) (length c) (hex (sha256 c))"
  have "out = acc @ (?e # es)"
    using es c by (simp add: hexdigest_def)
  moreover have "list_all2 (\<lambda>p e. \<exists>c wr b. map_of fs p = Some (File c True wr b)
                    \<and> (\<forall>k. b = Some k \<longrightarrow> length c \<le> k)
                    \<and> e = file_entry (last p) (length c) (hex (sha256 c))) (p # ps) (?e # es)"
    using all c by auto
  ultimately show ?case by blast
qed

lemma scan_files_ok:
  "\<forall>p\<in>set ps. \<exists>c wr b. map_of fs p = Some (File c True wr b) \<and> (\<forall>k. b = Some k \<longrightarrow> length c \<le> k)
   \<Longrightarrow> \<exists>out. scan_files fs ps acc = Inr out"
proof (induction ps arbitrary: acc)
  case Nil
  then show ?case by simp
next
  case (Cons p ps)
  then obtain c wr b where c: "map_of fs p = Some (File c True wr b)" "\<forall>k. b = Some k \<longrightarrow> length c \<le> k"
    by auto
  from open_hash_ok [OF c] obtain f where f: "open_rb fs p = Inr f" "hash_chunks f sha256_new = Inr c"
    by blast
  have st: "path_stat fs p = Inr \<lparr>st_size = length c\<rparr>"
    using c by (simp add: path_stat_def)
  from Cons.IH [of "acc @ [file_entry (last p) (length c) (hexdigest c)]"] Cons.prems
  show ?case using f st by simp
qed


lemma scan_files_fails:
  "scan_files fs ps acc = Inr out \<Longrightarrow> p \<in> set ps \<Longrightarrow>
     \<exists>c wr b. map_of fs p = Some (File c True wr b) \<and> (\<forall>k. b = Some k \<longrightarrow> length c \<le> k)"
  by (drule scan_files_Inr) (auto simp: list_all2_conv_all_nth in_set_conv_nth)


subsection \<open>Writing the manifest and listing the directory\<close>

lemma write_text_Inr:
  assumes "write_text fs p txt = Inr fs'"
  shows "\<exists>r b. fs' = AList.update p (File (encode txt) r True b) fs"
    and "is_dir fs (butlast p)" and "\<not> is_dir fs p" and "p \<noteq> []"
  using assms
  by (auto simp: write_text_def is_dir_def split: if_splits option.splits node.splits)

lemma write_text_read: "write_text fs p txt = Inr fs' \<Longrightarrow> read_bytes fs' p = Some (encode txt)"
  by (auto dest!: write_text_Inr(1) simp: read_bytes_def update_conv')

lemma write_text_frame: "write_text fs p txt = Inr fs' \<Longrightarrow> q \<noteq> p \<Longrightarrow> map_of fs' q = map_of fs q"
  by (auto dest!: write_text_Inr(1) simp: update_conv')

lemma write_text_keys:
  "write_text fs p txt = Inr fs' \<Longrightarrow> fst ` set fs' = insert p (fst ` set fs)"
proof -
  assume "write_text fs p txt = Inr fs'"
  from write_text_Inr(1) [OF this] obtain r b
    where "fs' = AList.update p (File (encode txt) r True b) fs" by blast
  then show ?thesis by (simp only: dom_update) simp
qed

lemma write_text_ok_file:
  "is_dir fs d \<Longrightarrow> map_of fs (d @ [n]) = Some (File c r True b) \<Longrightarrow>
     \<exists>fs'. write_text fs (d @ [n]) txt = Inr fs'"
  by (auto simp: write_text_def is_dir_def split: option.splits node.splits)

lemma write_text_ok_new:
  "map_of fs d = Some (Dir True) \<Longrightarrow> map_of fs (d @ [n]) = None \<Longrightarrow>
     \<exists>fs'. write_text fs (d @ [n]) txt = Inr fs'"
  by (simp add: write_text_def)

lemma create_manifest_Inr:
  assumes "create_manifest msv now fs d stats = (Inr p, fs')"
  shows "\<exists>es. scan_files fs (sort (path_glob fs d ''*.parquet'')) [] = Inr es
           \<and> p = d @ [''manifest.json'']
           \<and> write_text fs p (json_dumps 2 (manifest_record msv now stats es)) = Inr fs'"
  using assms by (auto simp: create_manifest_def Let_def split: sum.splits)

lemma create_manifest_Inl:
  "create_manifest msv now fs d stats = (Inl e, fs') \<Longrightarrow> fs' = fs"
  by (auto simp: create_manifest_def Let_def split: sum.splits)



lemma not_parquet_manifest: "\<not> fnmatch ''manifest.json'' ''*.parquet''"
  by (simp add: fnmatch_parquet suffix_def)


lemma set_scandir: "set (scandir fs d) = {n. d @ [n] \<in> fst ` set fs}"
proof (intro set_eqI iffI)
  fix n assume "n \<in> set (scandir fs d)"
  then obtain q nd where q: "(q, nd) \<in> set fs" "q \<noteq> []" "butlast q = d" "n = last q"
    by (auto simp: scandir_def)
  then have "d @ [n] = q"
    by (metis append_butlast_last_id)
  with q(1) show "n \<in> {n. d @ [n] \<in> fst ` set fs}"
    by (simp add: image_iff) (metis fst_conv)
next
  fix n assume "n \<in> {n. d @ [n] \<in> fst ` set fs}"
  then obtain nd where "(d @ [n], nd) \<in> set fs"
    by auto
  then have "(last \<circ> fst) (d @ [n], nd) \<in> (last \<circ> fst) ` set (filter (\<lambda>(p, n). p \<noteq> [] \<and> butlast p = d) fs)"
    by (intro imageI) simp
  then show "n \<in> set (scandir fs d)"
    by (simp add: scandir_def)
qed

lemma path_glob_set:
  "set (path_glob fs d pat) =
     (if is_dir fs d then {d @ [n] | n. d @ [n] \<in> fst ` set fs \<and> fnmatch n pat} else {})"
proof (cases "is_dir fs d")
  case True
  then have "set (path_glob fs d pat) = (\<lambda>n. d @ [n]) ` {n \<in> set (scandir fs d). fnmatch n pat}"
    by (simp add: path_glob_def)
  also have "\<dots> = {d @ [n] | n. d @ [n] \<in> fst ` set fs \<and> fnmatch n pat}"
    unfolding set_scandir by blast
  finally show ?thesis using True by simp
next
  case False
  then show ?thesis by (simp add: path_glob_def)
qed

lemma distinct_scandir: "distinct (map fst fs) \<Longrightarrow> distinct (scandir fs d)"
proof -
  assume d: "distinct (map fst fs)"
  let ?sel = "filter (\<lambda>(p, n). p \<noteq> [] \<and> butlast p = d) fs"
  have "distinct (map fst ?sel)"
    using d by (simp add: distinct_map_filter)
  moreover have "inj_on last (set (map fst ?sel))"
  proof (rule inj_onI)
    fix x y assume "x \<in> set (map fst ?sel)" "y \<in> set (map fst ?sel)" "last x = last y"
    then have "x \<noteq> []" "y \<noteq> []" "butlast x = butlast y" "last x = last y" by auto
    then show "x = y" by (metis append_butlast_last_id)
  qed
  ultimately have "distinct (map last (map fst ?sel))"
    by (simp only: distinct_map)
  then show ?thesis by (simp add: scandir_def)
qed

lemma distinct_path_glob: "distinct (map fst fs) \<Longrightarrow> distinct (path_glob fs d pat)"
proof -
  assume "distinct (map fst fs)"
  then have "distinct (filter (\<lambda>n. fnmatch n pat) (scandir fs d))"
    by (simp add: distinct_scandir)
  moreover have "inj (\<lambda>n. d @ [n])"
    by (simp add: inj_def)
  ultimately show ?thesis
    by (simp add: path_glob_def distinct_map inj_on_def)
qed

lemma path_glob_children: "p \<in> set (path_glob fs d pat) \<Longrightarrow> \<exists>n. p = d @ [n]"
  by (auto simp: path_glob_def split: if_splits)


subsection \<open>The digest and the example run\<close>

lemma length_sha_round: "length (sha_round s k w) = length s"
  by (induction s k w rule: sha_round.induct) simp_all

lemma length_rounds: "length (rounds ks s w) = length s"
  by (induction ks arbitrary: s w) (simp_all add: length_sha_round)

lemma length_compress: "length (compress hs block) = length hs"
  by (simp add: compress_def length_rounds)

lemma length_foldl_compress: "length (foldl compress hs bs) = length hs"
  by (induction bs arbitrary: hs) (simp_all add: length_compress)

lemma length_concat_be_bytes32: "length (concat (map be_bytes32 ws)) = 4 * length ws"
  by (induction ws) (simp_all add: be_bytes32_def)

lemma length_sha256: "length (sha256 m) = 32"
  by (simp add: sha256_def length_concat_be_bytes32 length_foldl_compress H256_def)

lemma length_hex: "length (hex bs) = 2 * length bs"
  by (induction bs) (simp_all add: hex_def)

lemma hexdigit_lower: "n < 16 \<Longrightarrow> hexdigit n \<in> set ''0123456789abcdef''"
  unfolding hexdigit_def by (rule nth_mem) simp

lemma set_hex: "set (hex bs) \<subseteq> set ''0123456789abcdef''"
proof -
  have "hexdigit (unat b div 16) \<in> set ''0123456789abcdef''"
       "hexdigit (unat b mod 16) \<in> set ''0123456789abcdef''" for b :: byte
  proof -
    have "unat b < 256" using unsigned_less [of b, where ?'a = nat] by simp
    then have "unat b div 16 < 16" by simp
    then show "hexdigit (unat b div 16) \<in> set ''0123456789abcdef''" by (rule hexdigit_lower)
    show "hexdigit (unat b mod 16) \<in> set ''0123456789abcdef''" by (rule hexdigit_lower) simp
  qed
  then show ?thesis
    unfolding hex_def by (induction bs) simp_all
qed

lemma hexdigest_format:
  "length (hexdigest h) = 64 \<and> set (hexdigest h) \<subseteq> set ''0123456789abcdef''"
  using set_hex [of "sha256 h"] by (simp add: hexdigest_def length_hex length_sha256)

lemma example_paths:
  "sort (path_glob example_fs [''data''] ''*.parquet'') =
     [[''data'', ''a.parquet''], [''data'', ''b.parquet'']]"
  by (simp add: path_glob_def is_dir_def scandir_def example_fs_def)

lemma example_scan:
  "scan_files example_fs [[''data'', ''a.parquet''], [''data'', ''b.parquet'']] [] =
     Inr [file_entry ''a.parquet'' 8 ''c34ab6abb7b2bb595bc25c3b388c872fd1d575819a8f55cc689510285e212385'',
          file_entry ''b.parquet'' 0 ''e3b0c44298fc1c149afbf4c8996fb92427ae41e4649b934ca495991b7852b855'']"
  by (simp add: example_fs_def open_rb_def hash_chunks_eq path_stat_def sha256_new_def
        hexdigest_def sha256_empty sha256_AAAAAAAA eval_nat_numeral)

lemma example_run:
  "create_manifest msv now example_fs [''data''] stats =
     (Inr [''data'', ''manifest.json''],
      AList.update [''data'', ''manifest.json'']
        (File (encode (json_dumps 2 (manifest_record msv now stats
           [file_entry ''a.parquet'' 8 ''c34ab6abb7b2bb595bc25c3b388c872fd1d575819a8f55cc689510285e212385'',
            file_entry ''b.parquet'' 0 ''e3b0c44298fc1c149afbf4c8996fb92427ae41e4649b934ca495991b7852b855'']))) True True None)
        example_fs)"
  unfolding create_manifest_def example_paths example_scan
  by (simp add: write_text_def example_fs_def Let_def)

subsection \<open>The text and the bytes of the manifest\<close>

lemma manifest_text_layout:
  "json_dumps 2 (manifest_record msv now stats es) =
     ''{'' @ newline_indent 2 1
     @ join ('','' @ newline_indent 2 1)
         [encode_basestring ''schema_version'' @ '': '' @ iterencode 2 1 msv,
          encode_basestring ''generated_at'' @ '': '' @ encode_basestring (isoformat now),
          encode_basestring ''cvec_db_version'' @ '': '' @ encode_basestring ''0.1.0'',
          encode_basestring ''stats'' @ '': '' @ iterencode 2 1 (JDict stats),
          encode_basestring ''files'' @ '': '' @ iterencode 2 1 (JList es)]
     @ newline_indent 2 0 @ ''}''"
  by (simp add: json_dumps_def manifest_record_def)

lemma unat_of_char: "unat (of_char c :: byte) = of_char c"
proof -
  have "(of_char c :: byte) = of_nat (of_char c)"
    by (simp only: of_nat_of_char)
  then have "unat (of_char c :: byte) = of_char c mod 256"
    by (simp only: unat_of_nat) simp
  moreover have "(of_char c :: nat) < 256"
    by simp
  ultimately show ?thesis
    by simp
qed

lemma encode_bytes: "map unat (encode s) = map of_char s"
  by (simp add: encode_def unat_of_char)

lemma sublist_join: "x \<in> set xs \<Longrightarrow> sublist x (join sep xs)"
proof (induction sep xs rule: join.induct)
  case (1 sep)
  then show ?case by simp
next
  case (2 sep y)
  then show ?case by simp
next
  case (3 sep y z zs)
  show ?case
  proof (cases "x = y")
    case True
    have "join sep (y # z # zs) = [] @ y @ (sep @ join sep (z # zs))"
      by simp
    then show ?thesis
      unfolding True by (simp only: sublist_appendI)
  next
    case False
    with 3 have "sublist x (join sep (z # zs))" by simp
    then obtain ps ss where "join sep (z # zs) = ps @ x @ ss"
      by (auto simp: sublist_def)
    then have "join sep (y # z # zs) = (y @ sep @ ps) @ x @ ss"
      by simp
    then show ?thesis
      by (simp only: sublist_appendI)
  qed
qed

lemma sublist_trans: "sublist xs ys \<Longrightarrow> sublist ys zs \<Longrightarrow> sublist xs zs"
proof -
  assume "sublist xs ys" "sublist ys zs"
  then obtain a b c d where "ys = a @ xs @ b" "zs = c @ ys @ d"
    by (auto simp: sublist_def)
  then have "zs = (c @ a) @ xs @ (b @ d)"
    by simp
  then show ?thesis
    by (simp only: sublist_appendI)
qed

lemma iterencode_list_map: "iterencode_list ind lvl xs = map (iterencode ind lvl) xs"
  by (induction xs) simp_all

lemma entry_in_text:
  assumes "e \<in> set es"
  shows "sublist (iterencode 2 2 e) (json_dumps 2 (manifest_record msv now stats es))"
proof -
  from assms have ne: "es \<noteq> []" by auto
  from assms have "iterencode 2 2 e \<in> set (iterencode_list 2 2 es)"
    by (simp add: iterencode_list_map)
  then have "sublist (iterencode 2 2 e) (join ('','' @ newline_indent 2 2) (iterencode_list 2 2 es))"
    by (rule sublist_join)
  moreover have "iterencode 2 1 (JList es) =
      (''['' @ newline_indent 2 2) @ join ('','' @ newline_indent 2 2) (iterencode_list 2 2 es)
      @ (newline_indent 2 1 @ '']'')"
    using ne by (simp add: numeral_2_eq_2)
  then have "sublist (join ('','' @ newline_indent 2 2) (iterencode_list 2 2 es))
               (iterencode 2 1 (JList es))"
    by (simp only: sublist_appendI)
  moreover have "json_dumps 2 (manifest_record msv now stats es) =
     (''{'' @ newline_indent 2 1
       @ encode_basestring ''schema_version'' @ '': '' @ iterencode 2 1 msv
       @ '','' @ newline_indent 2 1
       @ encode_basestring ''generated_at'' @ '': '' @ encode_basestring (isoformat now)
       @ '','' @ newline_indent 2 1
       @ encode_basestring ''cvec_db_version'' @ '': '' @ encode_basestring ''0.1.0''
       @ '','' @ newline_indent 2 1
       @ encode_basestring ''stats'' @ '': '' @ iterencode 2 1 (JDict stats)
       @ '','' @ newline_indent 2 1
       @ encode_basestring ''files'' @ '': '')
     @ iterencode 2 1 (JList es)
     @ (newline_indent 2 0 @ ''}'')"
    by (simp add: manifest_text_layout)
  then have "sublist (iterencode 2 1 (JList es)) (json_dumps 2 (manifest_record msv now stats es))"
    by (simp only: sublist_appendI)
  ultimately show ?thesis
    by (blast intro: sublist_trans)
qed

lemma escape_hex: "set s \<subseteq> set ''0123456789abcdef'' \<Longrightarrow> concat (map escape_char s) = s"
  by (induction s) (auto simp: escape_char_def)

lemma entry_text:
  "iterencode 2 2 (file_entry n nbytes (hex bs)) =
     ''{'' @ [CHR 0x0A] @ ''      '' @ [CHR 0x22] @ ''name'' @ [CHR 0x22] @ '': ''
       @ encode_basestring n @ '',''
     @ [CHR 0x0A] @ ''      '' @ [CHR 0x22] @ ''size'' @ [CHR 0x22] @ '': ''
       @ digits nbytes @ '',''
     @ [CHR 0x0A] @ ''      '' @ [CHR 0x22] @ ''sha256'' @ [CHR 0x22] @ '': ''
       @ [CHR 0x22] @ hex bs @ [CHR 0x22]
     @ [CHR 0x0A] @ ''    }''"
  using escape_hex [OF set_hex [of bs]]
  by (simp add: file_entry_def encode_basestring_def escape_char_def newline_indent_def
        int_repr_def replicate_numeral)

text \<open>
  The model of \<^verbatim>\<open>json.dumps\<close> on the manifest of the example directory with the stats
  \<^verbatim>\<open>{"cves": 42}\<close>: the text is character for character the text Python prints.
\<close>

lemma example_text:
  "json_dumps 2
     (JDict [(''schema_version'', JInt 1), (''generated_at'', JStr ''2024-01-02T03:04:05+00:00''),
            (''cvec_db_version'', JStr ''0.1.0''), (''stats'', JDict [(''cves'', JInt 42)]),
            (''files'', JList
               [JDict [(''name'', JStr ''a.parquet''), (''size'', JInt 8),
                    (''sha256'', JStr ''c34ab6abb7b2bb595bc25c3b388c872fd1d575819a8f55cc689510285e212385'')],
                JDict [(''name'', JStr ''b.parquet''), (''size'', JInt 0),
                    (''sha256'', JStr ''e3b0c44298fc1c149afbf4c8996fb92427ae41e4649b934ca495991b7852b855'')]])])
   = ''{''
       @ [CHR 0x0A] @ ''  '' @ [CHR 0x22] @ ''schema_version'' @ [CHR 0x22] @ '': 1,''
       @ [CHR 0x0A] @ ''  '' @ [CHR 0x22] @ ''generated_at'' @ [CHR 0x22] @ '': '' @ [CHR 0x22] @ ''2024-01-02T03:04:05+00:00'' @ [CHR 0x22] @ '',''
       @ [CHR 0x0A] @ ''  '' @ [CHR 0x22] @ ''cvec_db_version'' @ [CHR 0x22] @ '': '' @ [CHR 0x22] @ ''0.1.0'' @ [CHR 0x22] @ '',''
       @ [CHR 0x0A] @ ''  '' @ [CHR 0x22] @ ''stats'' @ [CHR 0x22] @ '': {''
       @ [CHR 0x0A] @ ''    '' @ [CHR 0x22] @ ''cves'' @ [CHR 0x22] @ '': 42''
       @ [CHR 0x0A] @ ''  },''
       @ [CHR 0x0A] @ ''  '' @ [CHR 0x22] @ ''files'' @ [CHR 0x22] @ '': [''
       @ [CHR 0x0A] @ ''    {''
       @ [CHR 0x0A] @ ''      '' @ [CHR 0x22] @ ''name'' @ [CHR 0x22] @ '': '' @ [CHR 0x22] @ ''a.parquet'' @ [CHR 0x22] @ '',''
       @ [CHR 0x0A] @ ''      '' @ [CHR 0x22] @ ''size'' @ [CHR 0x22] @ '': 8,''
       @ [CHR 0x0A] @ ''      '' @ [CHR 0x22] @ ''sha256'' @ [CHR 0x22] @ '': '' @ [CHR 0x22] @ ''c34ab6abb7b2bb595bc25c3b388c872fd1d575819a8f55cc689510285e212385'' @ [CHR 0x22]
       @ [CHR 0x0A] @ ''    },''
       @ [CHR 0x0A] @ ''    {''
       @ [CHR 0x0A] @ ''      '' @ [CHR 0x22] @ ''name'' @ [CHR 0x22] @ '': '' @ [CHR 0x22] @ ''b.parquet'' @ [CHR 0x22] @ '',''
       @ [CHR 0x0A] @ ''      '' @ [CHR 0x22] @ ''size'' @ [CHR 0x22] @ '': 0,''
       @ [CHR 0x0A] @ ''      '' @ [CHR 0x22] @ ''sha256'' @ [CHR 0x22] @ '': '' @ [CHR 0x22] @ ''e3b0c44298fc1c149afbf4c8996fb92427ae41e4649b934ca495991b7852b855'' @ [CHR 0x22]
       @ [CHR 0x0A] @ ''    }''
       @ [CHR 0x0A] @ ''  ]''
       @ [CHR 0x0A] @ ''}''"
  by (simp add: json_dumps_def encode_basestring_def escape_char_def newline_indent_def
        int_repr_def digits.simps digit_def replicate_numeral)

lemma example_record:
  "manifest_record (JInt 1) example_now [(''cves'', JInt 42)]
     [file_entry ''a.parquet'' 8 ''c34ab6abb7b2bb595bc25c3b388c872fd1d575819a8f55cc689510285e212385'',
      file_entry ''b.parquet'' 0 ''e3b0c44298fc1c149afbf4c8996fb92427ae41e4649b934ca495991b7852b855'']
   = JDict [(''schema_version'', JInt 1), (''generated_at'', JStr ''2024-01-02T03:04:05+00:00''),
            (''cvec_db_version'', JStr ''0.1.0''), (''stats'', JDict [(''cves'', JInt 42)]),
            (''files'', JList
               [JDict [(''name'', JStr ''a.parquet''), (''size'', JInt 8),
                    (''sha256'', JStr ''c34ab6abb7b2bb595bc25c3b388c872fd1d575819a8f55cc689510285e212385'')],
                JDict [(''name'', JStr ''b.parquet''), (''size'', JInt 0),
                    (''sha256'', JStr ''e3b0c44298fc1c149afbf4c8996fb92427ae41e4649b934ca495991b7852b855'')]])]"
  by (simp add: manifest_record_def file_entry_def isoformat_def example_now_def zpad_def
        digits.simps digit_def)

section \<open>The claims\<close>

text \<open>
  C1. Whenever \<open>create_manifest\<close> returns, each data file matched in \<open>output_dir\<close> is a
  readable regular file and has its entry in the \<open>files\<close> list of the manifest written, in
  the order of the sorted paths. The entry is the dictionary with the keys \<open>name\<close>, \<open>size\<close>
  and \<open>sha256\<close>: its \<open>sha256\<close> is the SHA-256 digest of the file's exact bytes, the bytes
  that the loop of 8192-byte reads feeds to the hash object, as 64 lowercase hexadecimal
  characters; its \<open>size\<close> is the \<open>st_size\<close> that \<open>stat\<close> reports, the file's length in bytes.
  The bytes of the manifest file are the character codes of the text of the manifest, and
  that text holds the entry as three lines, the digest between quotes.
\<close>

theorem manifest_entries_digest_and_size:
  assumes "create_manifest msv now fs output_dir stats = (Inr p, fs')"
  shows "\<exists>es m bytes.
       m = manifest_record msv now stats es
     \<and> m = JDict [(''schema_version'', msv), (''generated_at'', JStr (isoformat now)),
                  (''cvec_db_version'', JStr ''0.1.0''), (''stats'', JDict stats), (''files'', JList es)]
     \<and> dict_get m ''files'' = Some (JList es)
     \<and> read_bytes fs' p = Some bytes
     \<and> bytes = encode (json_dumps 2 m)
     \<and> map unat bytes = map of_char (json_dumps 2 m)
     \<and> list_all2 (\<lambda>pq e. \<exists>c wr b f.
            map_of fs pq = Some (File c True wr b)
          \<and> open_rb fs pq = Inr f \<and> hash_chunks f sha256_new = Inr c
          \<and> path_stat fs pq = Inr \<lparr>st_size = length c\<rparr>
          \<and> e = file_entry (last pq) (length c) (hex (sha256 c))
          \<and> e = JDict [(''name'', JStr (last pq)), (''size'', JInt (int (length c))),
                       (''sha256'', JStr (hex (sha256 c)))]
          \<and> dict_get e ''size'' = Some (JInt (int (length c)))
          \<and> dict_get e ''sha256'' = Some (JStr (hex (sha256 c)))
          \<and> length (hex (sha256 c)) = 64
          \<and> set (hex (sha256 c)) \<subseteq> set ''0123456789abcdef''
          \<and> sublist (iterencode 2 2 e) (json_dumps 2 m)
          \<and> iterencode 2 2 e =
               ''{'' @ [CHR 0x0A] @ ''      '' @ [CHR 0x22] @ ''name'' @ [CHR 0x22] @ '': ''
                 @ encode_basestring (last pq) @ '',''
               @ [CHR 0x0A] @ ''      '' @ [CHR 0x22] @ ''size'' @ [CHR 0x22] @ '': ''
                 @ digits (length c) @ '',''
               @ [CHR 0x0A] @ ''      '' @ [CHR 0x22] @ ''sha256'' @ [CHR 0x22] @ '': ''
                 @ [CHR 0x22] @ hex (sha256 c) @ [CHR 0x22]
               @ [CHR 0x0A] @ ''    }'')
        (sort (path_glob fs output_dir ''*.parquet'')) es"
proof -
  let ?ps = "sort (path_glob fs output_dir ''*.parquet'')"
  from create_manifest_Inr [OF assms] obtain es where
    scan: "scan_files fs ?ps [] = Inr es"
    and w: "write_text fs p (json_dumps 2 (manifest_record msv now stats es)) = Inr fs'"
    by blast
  let ?m = "manifest_record msv now stats es"
  have m: "?m = JDict [(''schema_version'', msv), (''generated_at'', JStr (isoformat now)),
                  (''cvec_db_version'', JStr ''0.1.0''), (''stats'', JDict stats), (''files'', JList es)]"
    by (simp add: manifest_record_def)
  have files: "dict_get ?m ''files'' = Some (JList es)"
    by (simp add: manifest_record_def)
  have rb: "read_bytes fs' p = Some (encode (json_dumps 2 ?m))"
    by (rule write_text_read [OF w])
  have bytes: "map unat (encode (json_dumps 2 ?m)) = map of_char (json_dumps 2 ?m)"
    by (rule encode_bytes)
  from scan_files_Inr [OF scan] have all:
    "list_all2 (\<lambda>p e. \<exists>c wr b. map_of fs p = Some (File c True wr b)
                    \<and> (\<forall>k. b = Some k \<longrightarrow> length c \<le> k)
                    \<and> e = file_entry (last p) (length c) (hex (sha256 c)))
       ?ps es"
    by simp
  have rel: "list_all2 (\<lambda>pq e. \<exists>c wr b f.
            map_of fs pq = Some (File c True wr b)
          \<and> open_rb fs pq = Inr f \<and> hash_chunks f sha256_new = Inr c
          \<and> path_stat fs pq = Inr \<lparr>st_size = length c\<rparr>
          \<and> e = file_entry (last pq) (length c) (hex (sha256 c))
          \<and> e = JDict [(''name'', JStr (last pq)), (''size'', JInt (int (length c))),
                       (''sha256'', JStr (hex (sha256 c)))]
          \<and> dict_get e ''size'' = Some (JInt (int (length c)))
          \<and> dict_get e ''sha256'' = Some (JStr (hex (sha256 c)))
          \<and> length (hex (sha256 c)) = 64
          \<and> set (hex (sha256 c)) \<subseteq> set ''0123456789abcdef''
          \<and> sublist (iterencode 2 2 e) (json_dumps 2 ?m)
          \<and> iterencode 2 2 e =
               ''{'' @ [CHR 0x0A] @ ''      '' @ [CHR 0x22] @ ''name'' @ [CHR 0x22] @ '': ''
                 @ encode_basestring (last pq) @ '',''
               @ [CHR 0x0A] @ ''      '' @ [CHR 0x22] @ ''size'' @ [CHR 0x22] @ '': ''
                 @ digits (length c) @ '',''
               @ [CHR 0x0A] @ ''      '' @ [CHR 0x22] @ ''sha256'' @ [CHR 0x22] @ '': ''
                 @ [CHR 0x22] @ hex (sha256 c) @ [CHR 0x22]
               @ [CHR 0x0A] @ ''    }'')
        ?ps es"
  proof (rule list_all2_all_nthI)
    show "length ?ps = length es"
      using all by (rule list_all2_lengthD)
  next
    fix i assume i: "i < length ?ps"
    from list_all2_nthD [OF all i] obtain c wr b where
      c: "map_of fs (?ps ! i) = Some (File c True wr b)"
         "\<forall>k. b = Some k \<longrightarrow> length c \<le> k"
      and e: "es ! i = file_entry (last (?ps ! i)) (length c) (hex (sha256 c))"
      by blast
    from all have "length ?ps = length es"
      by (rule list_all2_lengthD)
    with i have "es ! i \<in> set es"
      by simp
    then have sub: "sublist (iterencode 2 2 (es ! i)) (json_dumps 2 ?m)"
      by (rule entry_in_text)
    from open_hash_ok [OF c] obtain f where
      f: "open_rb fs (?ps ! i) = Inr f" "hash_chunks f sha256_new = Inr c"
      by blast
    have st: "path_stat fs (?ps ! i) = Inr \<lparr>st_size = length c\<rparr>"
      using c(1) by (simp add: path_stat_def)
    from hexdigest_format [of c] have fmt:
      "length (hex (sha256 c)) = 64" "set (hex (sha256 c)) \<subseteq> set ''0123456789abcdef''"
      by (simp_all add: hexdigest_def)
    have ex: "es ! i = JDict [(''name'', JStr (last (?ps ! i))), (''size'', JInt (int (length c))),
                       (''sha256'', JStr (hex (sha256 c)))]"
      using e by (simp add: file_entry_def)
    have dg: "dict_get (es ! i) ''size'' = Some (JInt (int (length c)))"
             "dict_get (es ! i) ''sha256'' = Some (JStr (hex (sha256 c)))"
      by (simp_all add: ex)
    have rendered: "iterencode 2 2 (es ! i) =
               ''{'' @ [CHR 0x0A] @ ''      '' @ [CHR 0x22] @ ''name'' @ [CHR 0x22] @ '': ''
                 @ encode_basestring (last (?ps ! i)) @ '',''
               @ [CHR 0x0A] @ ''      '' @ [CHR 0x22] @ ''size'' @ [CHR 0x22] @ '': ''
                 @ digits (length c) @ '',''
               @ [CHR 0x0A] @ ''      '' @ [CHR 0x22] @ ''sha256'' @ [CHR 0x22] @ '': ''
                 @ [CHR 0x22] @ hex (sha256 c) @ [CHR 0x22]
               @ [CHR 0x0A] @ ''    }''"
      unfolding e by (rule entry_text)
    from c(1) f st e ex dg fmt sub rendered
    show "(\<lambda>pq e. \<exists>c wr b f.
            map_of fs pq = Some (File c True wr b)
          \<and> open_rb fs pq = Inr f \<and> hash_chunks f sha256_new = Inr c
          \<and> path_stat fs pq = Inr \<lparr>st_size = length c\<rparr>
          \<and> e = file_entry (last pq) (length c) (hex (sha256 c))
          \<and> e = JDict [(''name'', JStr (last pq)), (''size'', JInt (int (length c))),
                       (''sha256'', JStr (hex (sha256 c)))]
          \<and> dict_get e ''size'' = Some (JInt (int (length c)))
          \<and> dict_get e ''sha256'' = Some (JStr (hex (sha256 c)))
          \<and> length (hex (sha256 c)) = 64
          \<and> set (hex (sha256 c)) \<subseteq> set ''0123456789abcdef''
          \<and> sublist (iterencode 2 2 e) (json_dumps 2 ?m)
          \<and> iterencode 2 2 e =
               ''{'' @ [CHR 0x0A] @ ''      '' @ [CHR 0x22] @ ''name'' @ [CHR 0x22] @ '': ''
                 @ encode_basestring (last pq) @ '',''
               @ [CHR 0x0A] @ ''      '' @ [CHR 0x22] @ ''size'' @ [CHR 0x22] @ '': ''
                 @ digits (length c) @ '',''
               @ [CHR 0x0A] @ ''      '' @ [CHR 0x22] @ ''sha256'' @ [CHR 0x22] @ '': ''
                 @ [CHR 0x22] @ hex (sha256 c) @ [CHR 0x22]
               @ [CHR 0x0A] @ ''    }'') (?ps ! i) (es ! i)"
      by blast
  qed
  show ?thesis
    by (intro exI [of _ es] exI [of _ ?m] exI [of _ "encode (json_dumps 2 ?m)"] conjI)
       (rule refl m files rb bytes rel)+
qed

theorem manifest_entries_digest_and_size_witness:
  "create_manifest (JInt 1) example_now example_fs [''data''] [] =
      (Inr [''data'', ''manifest.json''],
       (AList.update [''data'', ''manifest.json'']
        (File (encode (json_dumps 2 (manifest_record (JInt 1) example_now []
           [file_entry ''a.parquet'' 8 ''c34ab6abb7b2bb595bc25c3b388c872fd1d575819a8f55cc689510285e212385'',
            file_entry ''b.parquet'' 0 ''e3b0c44298fc1c149afbf4c8996fb92427ae41e4649b934ca495991b7852b855'']))) True True None)
        example_fs))
   \<and> (\<exists>es m bytes.
       m = manifest_record (JInt 1) example_now [] es
     \<and> m = JDict [(''schema_version'', (JInt 1)), (''generated_at'', JStr (isoformat example_now)),
                  (''cvec_db_version'', JStr ''0.1.0''), (''stats'', JDict []), (''files'', JList es)]
     \<and> dict_get m ''files'' = Some (JList es)
     \<and> read_bytes (AList.update [''data'', ''manifest.json'']
        (File (encode (json_dumps 2 (manifest_record (JInt 1) example_now []
           [file_entry ''a.parquet'' 8 ''c34ab6abb7b2bb595bc25c3b388c872fd1d575819a8f55cc689510285e212385'',
            file_entry ''b.parquet'' 0 ''e3b0c44298fc1c149afbf4c8996fb92427ae41e4649b934ca495991b7852b855'']))) True True None)
        example_fs) [''data'', ''manifest.json''] = Some bytes
     \<and> bytes = encode (json_dumps 2 m)
     \<and> map unat bytes = map of_char (json_dumps 2 m)
     \<and> list_all2 (\<lambda>pq e. \<exists>c wr b f.
            map_of example_fs pq = Some (File c True wr b)
          \<and> open_rb example_fs pq = Inr f \<and> hash_chunks f sha256_new = Inr c
          \<and> path_stat example_fs pq = Inr \<lparr>st_size = length c\<rparr>
          \<and> e = file_entry (last pq) (length c) (hex (sha256 c))
          \<and> e = JDict [(''name'', JStr (last pq)), (''size'', JInt (int (length c))),
                       (''sha256'', JStr (hex (sha256 c)))]
          \<and> dict_get e ''size'' = Some (JInt (int (length c)))
          \<and> dict_get e ''sha256'' = Some (JStr (hex (sha256 c)))
          \<and> length (hex (sha256 c)) = 64
          \<and> set (hex (sha256 c)) \<subseteq> set ''0123456789abcdef''
          \<and> sublist (iterencode 2 2 e) (json_dumps 2 m)
          \<and> iterencode 2 2 e =
               ''{'' @ [CHR 0x0A] @ ''      '' @ [CHR 0x22] @ ''name'' @ [CHR 0x22] @ '': ''
                 @ encode_basestring (last pq) @ '',''
               @ [CHR 0x0A] @ ''      '' @ [CHR 0x22] @ ''size'' @ [CHR 0x22] @ '': ''
                 @ digits (length c) @ '',''
               @ [CHR 0x0A] @ ''      '' @ [CHR 0x22] @ ''sha256'' @ [CHR 0x22] @ '': ''
                 @ [CHR 0x22] @ hex (sha256 c) @ [CHR 0x22]
               @ [CHR 0x0A] @ ''    }'')
        (sort (path_glob example_fs [''data''] ''*.parquet'')) es)"
  using manifest_entries_digest_and_size [OF example_run [of "JInt 1" example_now "[]"]] example_run
  by (rule conjI [rotated])

lemma distinct_map_last_children:
  "distinct ps \<Longrightarrow> \<forall>p\<in>set ps. \<exists>n. p = d @ [n] \<Longrightarrow> distinct (map last ps)"
proof -
  assume d: "distinct ps" and c: "\<forall>p\<in>set ps. \<exists>n. p = d @ [n]"
  have "inj_on last (set ps)"
  proof (rule inj_onI)
    fix x y assume "x \<in> set ps" "y \<in> set ps" "last x = last y"
    with c obtain n m where "x = d @ [n]" "y = d @ [m]" "last x = last y" by blast
    then show "x = y" by simp
  qed
  with d show ?thesis by (simp add: distinct_map)
qed

lemma scan_files_names:
  "scan_files fs ps [] = Inr es \<Longrightarrow>
     list_all2 (\<lambda>n e. \<exists>nbytes digest. e = file_entry n nbytes digest) (map last ps) es"
proof -
  assume "scan_files fs ps [] = Inr es"
  from scan_files_Inr [OF this] have
    "list_all2 (\<lambda>p e. \<exists>c wr b. map_of fs p = Some (File c True wr b)
                    \<and> (\<forall>k. b = Some k \<longrightarrow> length c \<le> k)
                    \<and> e = file_entry (last p) (length c) (hex (sha256 c))) ps es"
    by simp
  then have "list_all2 (\<lambda>p e. \<exists>nbytes digest. e = file_entry (last p) nbytes digest) ps es"
    by (rule list_all2_mono) blast
  then show ?thesis
    by (simp add: list_all2_map1)
qed

lemma butlast_eq_self: "butlast d = d \<longleftrightarrow> d = []"
proof
  assume "butlast d = d"
  then have "length (butlast d) = length d" by simp
  then have "length d - 1 = length d" by (simp only: length_butlast)
  then show "d = []" by (cases d) simp_all
qed simp

lemma two_files_run:
  "create_manifest msv now
      [(d, Dir True),
       (d @ [''b.parquet''], File [] True True None),
       (d @ [''a.parquet''], File [0x41, 0x41, 0x41, 0x41, 0x41, 0x41, 0x41, 0x41] True True None)]
      d stats =
     (Inr (d @ [''manifest.json'']),
      [(d, Dir True),
       (d @ [''b.parquet''], File [] True True None),
       (d @ [''a.parquet''], File [0x41, 0x41, 0x41, 0x41, 0x41, 0x41, 0x41, 0x41] True True None),
       (d @ [''manifest.json''],
        File (encode (json_dumps 2 (manifest_record msv now stats
           [file_entry ''a.parquet'' 8 ''c34ab6abb7b2bb595bc25c3b388c872fd1d575819a8f55cc689510285e212385'',
            file_entry ''b.parquet'' 0 ''e3b0c44298fc1c149afbf4c8996fb92427ae41e4649b934ca495991b7852b855'']))) True True None)])"
proof -
  let ?fs = "[(d, Dir True),
       (d @ [''b.parquet''], File [] True True None),
       (d @ [''a.parquet''], File [0x41, 0x41, 0x41, 0x41, 0x41, 0x41, 0x41, 0x41] True True None)]"
  have paths: "sort (path_glob ?fs d ''*.parquet'') = [d @ [''a.parquet''], d @ [''b.parquet'']]"
    by (simp add: path_glob_def is_dir_def scandir_def append_le_append_same butlast_eq_self)
  have scan: "scan_files ?fs [d @ [''a.parquet''], d @ [''b.parquet'']] [] =
     Inr [file_entry ''a.parquet'' 8 ''c34ab6abb7b2bb595bc25c3b388c872fd1d575819a8f55cc689510285e212385'',
          file_entry ''b.parquet'' 0 ''e3b0c44298fc1c149afbf4c8996fb92427ae41e4649b934ca495991b7852b855'']"
    by (simp add: open_rb_def hash_chunks_eq path_stat_def sha256_new_def
        hexdigest_def sha256_empty sha256_AAAAAAAA eval_nat_numeral)
  show ?thesis
    unfolding create_manifest_def paths scan
    by (simp add: write_text_def Let_def)
qed

text \<open>
  C2. When the entries of the file system have distinct paths, the \<open>files\<close> list of the
  manifest that \<open>create_manifest\<close> writes has one entry, a dictionary with the keys
  \<open>name\<close>, \<open>size\<close> and \<open>sha256\<close>, for each of the N names in \<open>output_dir\<close> that end in
  \<open>.parquet\<close>: as many entries as such names, the names ascending in the order of strings
  and without repetition. In particular, on a directory that holds exactly \<open>a.parquet\<close>
  with the eight bytes \<open>AAAAAAAA\<close> and the empty \<open>b.parquet\<close>, listed in the other order,
  the manifest written has as its \<open>files\<close> the entry of \<open>a.parquet\<close> with size 8 and then
  the entry of \<open>b.parquet\<close> with size 0, each with the SHA-256 digest of its content; with
  schema version 1, the stats \<^verbatim>\<open>{"cves": 42}\<close> and a fixed reading of the clock its text
  is the one spelled out at the end.
\<close>

theorem manifest_files_count_and_order:
  "(\<forall>msv now fs output_dir stats p fs'.
      create_manifest msv now fs output_dir stats = (Inr p, fs') \<and> distinct (map fst fs) \<longrightarrow>
      (\<exists>es names m bytes.
          m = manifest_record msv now stats es
        \<and> m = JDict [(''schema_version'', msv), (''generated_at'', JStr (isoformat now)),
                  (''cvec_db_version'', JStr ''0.1.0''), (''stats'', JDict stats), (''files'', JList es)]
        \<and> dict_get m ''files'' = Some (JList es)
        \<and> read_bytes fs' p = Some bytes
        \<and> bytes = encode (json_dumps 2 m)
        \<and> map unat bytes = map of_char (json_dumps 2 m)
        \<and> list_all2 (\<lambda>n e. \<exists>nbytes digest.
               e = JDict [(''name'', JStr n), (''size'', JInt (int nbytes)), (''sha256'', JStr digest)]
             \<and> dict_get e ''name'' = Some (JStr n)) names es
        \<and> length es = length (filter (\<lambda>n. suffix ''.parquet'' n) (scandir fs output_dir))
        \<and> set names = {n \<in> set (scandir fs output_dir). suffix ''.parquet'' n}
        \<and> sorted names \<and> distinct names))
   \<and> (\<forall>msv now d stats.
        create_manifest msv now
          [(d, Dir True),
           (d @ [''b.parquet''], File [] True True None),
           (d @ [''a.parquet''], File [0x41, 0x41, 0x41, 0x41, 0x41, 0x41, 0x41, 0x41] True True None)]
          d stats =
         (Inr (d @ [''manifest.json'']),
          [(d, Dir True),
           (d @ [''b.parquet''], File [] True True None),
           (d @ [''a.parquet''], File [0x41, 0x41, 0x41, 0x41, 0x41, 0x41, 0x41, 0x41] True True None),
           (d @ [''manifest.json''],
            File (encode (json_dumps 2
              (JDict [(''schema_version'', msv), (''generated_at'', JStr (isoformat now)),
                  (''cvec_db_version'', JStr ''0.1.0''), (''stats'', JDict stats), (''files'', JList 
                     [JDict [(''name'', JStr ''a.parquet''), (''size'', JInt 8),
                    (''sha256'', JStr ''c34ab6abb7b2bb595bc25c3b388c872fd1d575819a8f55cc689510285e212385'')],
                      JDict [(''name'', JStr ''b.parquet''), (''size'', JInt 0),
                    (''sha256'', JStr ''e3b0c44298fc1c149afbf4c8996fb92427ae41e4649b934ca495991b7852b855'')]])]))) True True None)]))
   \<and> json_dumps 2
         (JDict [(''schema_version'', JInt 1), (''generated_at'', JStr ''2024-01-02T03:04:05+00:00''),
            (''cvec_db_version'', JStr ''0.1.0''), (''stats'', JDict [(''cves'', JInt 42)]),
            (''files'', JList
               [JDict [(''name'', JStr ''a.parquet''), (''size'', JInt 8),
                    (''sha256'', JStr ''c34ab6abb7b2bb595bc25c3b388c872fd1d575819a8f55cc689510285e212385'')],
                JDict [(''name'', JStr ''b.parquet''), (''size'', JInt 0),
                    (''sha256'', JStr ''e3b0c44298fc1c149afbf4c8996fb92427ae41e4649b934ca495991b7852b855'')]])])
       = ''{''
       @ [CHR 0x0A] @ ''  '' @ [CHR 0x22] @ ''schema_version'' @ [CHR 0x22] @ '': 1,''
       @ [CHR 0x0A] @ ''  '' @ [CHR 0x22] @ ''generated_at'' @ [CHR 0x22] @ '': '' @ [CHR 0x22] @ ''2024-01-02T03:04:05+00:00'' @ [CHR 0x22] @ '',''
       @ [CHR 0x0A] @ ''  '' @ [CHR 0x22] @ ''cvec_db_version'' @ [CHR 0x22] @ '': '' @ [CHR 0x22] @ ''0.1.0'' @ [CHR 0x22] @ '',''
       @ [CHR 0x0A] @ ''  '' @ [CHR 0x22] @ ''stats'' @ [CHR 0x22] @ '': {''
       @ [CHR 0x0A] @ ''    '' @ [CHR 0x22] @ ''cves'' @ [CHR 0x22] @ '': 42''
       @ [CHR 0x0A] @ ''  },''
       @ [CHR 0x0A] @ ''  '' @ [CHR 0x22] @ ''files'' @ [CHR 0x22] @ '': [''
       @ [CHR 0x0A] @ ''    {''
       @ [CHR 0x0A] @ ''      '' @ [CHR 0x22] @ ''name'' @ [CHR 0x22] @ '': '' @ [CHR 0x22] @ ''a.parquet'' @ [CHR 0x22] @ '',''
       @ [CHR 0x0A] @ ''      '' @ [CHR 0x22] @ ''size'' @ [CHR 0x22] @ '': 8,''
       @ [CHR 0x0A] @ ''      '' @ [CHR 0x22] @ ''sha256'' @ [CHR 0x22] @ '': '' @ [CHR 0x22] @ ''c34ab6abb7b2bb595bc25c3b388c872fd1d575819a8f55cc689510285e212385'' @ [CHR 0x22]
       @ [CHR 0x0A] @ ''    },''
       @ [CHR 0x0A] @ ''    {''
       @ [CHR 0x0A] @ ''      '' @ [CHR 0x22] @ ''name'' @ [CHR 0x22] @ '': '' @ [CHR 0x22] @ ''b.parquet'' @ [CHR 0x22] @ '',''
       @ [CHR 0x0A] @ ''      '' @ [CHR 0x22] @ ''size'' @ [CHR 0x22] @ '': 0,''
       @ [CHR 0x0A] @ ''      '' @ [CHR 0x22] @ ''sha256'' @ [CHR 0x22] @ '': '' @ [CHR 0x22] @ ''e3b0c44298fc1c149afbf4c8996fb92427ae41e4649b934ca495991b7852b855'' @ [CHR 0x22]
       @ [CHR 0x0A] @ ''    }''
       @ [CHR 0x0A] @ ''  ]''
       @ [CHR 0x0A] @ ''}''"
proof (intro conjI allI impI)
  fix msv now fs output_dir stats p fs'
  assume a: "create_manifest msv now fs output_dir stats = (Inr p, fs') \<and> distinct (map fst fs)"
  let ?ps = "sort (path_glob fs output_dir ''*.parquet'')"
  from a create_manifest_Inr obtain es where
    scan: "scan_files fs ?ps [] = Inr es"
    and w: "write_text fs p (json_dumps 2 (manifest_record msv now stats es)) = Inr fs'"
    and p: "p = output_dir @ [''manifest.json'']"
    by blast
  let ?m = "manifest_record msv now stats es"
  have m: "?m = JDict [(''schema_version'', msv), (''generated_at'', JStr (isoformat now)),
                  (''cvec_db_version'', JStr ''0.1.0''), (''stats'', JDict stats), (''files'', JList es)]"
    by (simp add: manifest_record_def)
  have files: "dict_get ?m ''files'' = Some (JList es)"
    by (simp add: manifest_record_def)
  have rb: "read_bytes fs' p = Some (encode (json_dumps 2 ?m))"
    by (rule write_text_read [OF w])
  have bytes: "map unat (encode (json_dumps 2 ?m)) = map of_char (json_dumps 2 ?m)"
    by (rule encode_bytes)
  from write_text_Inr(2) [OF w] p have dir: "is_dir fs output_dir"
    by simp
  have children: "\<forall>q\<in>set ?ps. \<exists>n. q = output_dir @ [n]"
    by (auto dest: path_glob_children)
  have names0: "list_all2 (\<lambda>n e. \<exists>nbytes digest. e = file_entry n nbytes digest) (map last ?ps) es"
    using scan by (rule scan_files_names)
  then have names: "list_all2 (\<lambda>n e. \<exists>nbytes digest.
               e = JDict [(''name'', JStr n), (''size'', JInt (int nbytes)), (''sha256'', JStr digest)]
             \<and> dict_get e ''name'' = Some (JStr n)) (map last ?ps) es"
    by (rule list_all2_mono) (auto simp: file_entry_def)
  from names0 have "length es = length ?ps"
    by (simp add: list_all2_lengthD [symmetric])
  also have "\<dots> = length (filter (\<lambda>n. suffix ''.parquet'' n) (scandir fs output_dir))"
    using dir by (simp add: path_glob_def fnmatch_parquet)
  finally have len: "length es = length (filter (\<lambda>n. suffix ''.parquet'' n) (scandir fs output_dir))" .
  have "set (map last ?ps) = last ` (\<lambda>n. output_dir @ [n]) ` {n \<in> set (scandir fs output_dir). suffix ''.parquet'' n}"
    using dir by (simp add: path_glob_def fnmatch_parquet)
  also have "\<dots> = {n \<in> set (scandir fs output_dir). suffix ''.parquet'' n}"
    by (simp add: image_image)
  finally have set: "set (map last ?ps) = {n \<in> set (scandir fs output_dir). suffix ''.parquet'' n}" .
  have sorted: "sorted (map last ?ps)"
    using children by (intro sorted_names [where d = output_dir]) simp_all
  have "distinct ?ps"
    using a by (simp add: distinct_path_glob)
  then have distinct: "distinct (map last ?ps)"
    using children by (rule distinct_map_last_children)
  show "\<exists>es names m bytes.
          m = manifest_record msv now stats es
        \<and> m = JDict [(''schema_version'', msv), (''generated_at'', JStr (isoformat now)),
                  (''cvec_db_version'', JStr ''0.1.0''), (''stats'', JDict stats), (''files'', JList es)]
        \<and> dict_get m ''files'' = Some (JList es)
        \<and> read_bytes fs' p = Some bytes
        \<and> bytes = encode (json_dumps 2 m)
        \<and> map unat bytes = map of_char (json_dumps 2 m)
        \<and> list_all2 (\<lambda>n e. \<exists>nbytes digest.
               e = JDict [(''name'', JStr n), (''size'', JInt (int nbytes)), (''sha256'', JStr digest)]
             \<and> dict_get e ''name'' = Some (JStr n)) names es
        \<and> length es = length (filter (\<lambda>n. suffix ''.parquet'' n) (scandir fs output_dir))
        \<and> set names = {n \<in> set (scandir fs output_dir). suffix ''.parquet'' n}
        \<and> sorted names \<and> distinct names"
    by (intro exI [of _ es] exI [of _ "map last ?ps"] exI [of _ ?m]
              exI [of _ "encode (json_dumps 2 ?m)"] conjI)
       (rule refl m files rb bytes names len set sorted distinct)+
next
  fix msv now d stats
  show "create_manifest msv now
          [(d, Dir True),
           (d @ [''b.parquet''], File [] True True None),
           (d @ [''a.parquet''], File [0x41, 0x41, 0x41, 0x41, 0x41, 0x41, 0x41, 0x41] True True None)]
          d stats =
         (Inr (d @ [''manifest.json'']),
          [(d, Dir True),
           (d @ [''b.parquet''], File [] True True None),
           (d @ [''a.parquet''], File [0x41, 0x41, 0x41, 0x41, 0x41, 0x41, 0x41, 0x41] True True None),
           (d @ [''manifest.json''],
            File (encode (json_dumps 2
              (JDict [(''schema_version'', msv), (''generated_at'', JStr (isoformat now)),
                  (''cvec_db_version'', JStr ''0.1.0''), (''stats'', JDict stats), (''files'', JList 
                     [JDict [(''name'', JStr ''a.parquet''), (''size'', JInt 8),
                    (''sha256'', JStr ''c34ab6abb7b2bb595bc25c3b388c872fd1d575819a8f55cc689510285e212385'')],
                      JDict [(''name'', JStr ''b.parquet''), (''size'', JInt 0),
                    (''sha256'', JStr ''e3b0c44298fc1c149afbf4c8996fb92427ae41e4649b934ca495991b7852b855'')]])]))) True True None)])"
  proof -
    have r: "manifest_record msv now stats
               [file_entry ''a.parquet'' 8 ''c34ab6abb7b2bb595bc25c3b388c872fd1d575819a8f55cc689510285e212385'',
                file_entry ''b.parquet'' 0 ''e3b0c44298fc1c149afbf4c8996fb92427ae41e4649b934ca495991b7852b855'']
             = JDict [(''schema_version'', msv), (''generated_at'', JStr (isoformat now)),
                  (''cvec_db_version'', JStr ''0.1.0''), (''stats'', JDict stats), (''files'', JList 
                     [JDict [(''name'', JStr ''a.parquet''), (''size'', JInt 8),
                    (''sha256'', JStr ''c34ab6abb7b2bb595bc25c3b388c872fd1d575819a8f55cc689510285e212385'')],
                      JDict [(''name'', JStr ''b.parquet''), (''size'', JInt 0),
                    (''sha256'', JStr ''e3b0c44298fc1c149afbf4c8996fb92427ae41e4649b934ca495991b7852b855'')]])]"
      by (simp add: manifest_record_def file_entry_def)
    show ?thesis
      using two_files_run [of msv now d stats] unfolding r .
  qed
next
  show "json_dumps 2
         (JDict [(''schema_version'', JInt 1), (''generated_at'', JStr ''2024-01-02T03:04:05+00:00''),
            (''cvec_db_version'', JStr ''0.1.0''), (''stats'', JDict [(''cves'', JInt 42)]),
            (''files'', JList
               [JDict [(''name'', JStr ''a.parquet''), (''size'', JInt 8),
                    (''sha256'', JStr ''c34ab6abb7b2bb595bc25c3b388c872fd1d575819a8f55cc689510285e212385'')],
                JDict [(''name'', JStr ''b.parquet''), (''size'', JInt 0),
                    (''sha256'', JStr ''e3b0c44298fc1c149afbf4c8996fb92427ae41e4649b934ca495991b7852b855'')]])])
       = ''{''
       @ [CHR 0x0A] @ ''  '' @ [CHR 0x22] @ ''schema_version'' @ [CHR 0x22] @ '': 1,''
       @ [CHR 0x0A] @ ''  '' @ [CHR 0x22] @ ''generated_at'' @ [CHR 0x22] @ '': '' @ [CHR 0x22] @ ''2024-01-02T03:04:05+00:00'' @ [CHR 0x22] @ '',''
       @ [CHR 0x0A] @ ''  '' @ [CHR 0x22] @ ''cvec_db_version'' @ [CHR 0x22] @ '': '' @ [CHR 0x22] @ ''0.1.0'' @ [CHR 0x22] @ '',''
       @ [CHR 0x0A] @ ''  '' @ [CHR 0x22] @ ''stats'' @ [CHR 0x22] @ '': {''
       @ [CHR 0x0A] @ ''    '' @ [CHR 0x22] @ ''cves'' @ [CHR 0x22] @ '': 42''
       @ [CHR 0x0A] @ ''  },''
       @ [CHR 0x0A] @ ''  '' @ [CHR 0x22] @ ''files'' @ [CHR 0x22] @ '': [''
       @ [CHR 0x0A] @ ''    {''
       @ [CHR 0x0A] @ ''      '' @ [CHR 0x22] @ ''name'' @ [CHR 0x22] @ '': '' @ [CHR 0x22] @ ''a.parquet'' @ [CHR 0x22] @ '',''
       @ [CHR 0x0A] @ ''      '' @ [CHR 0x22] @ ''size'' @ [CHR 0x22] @ '': 8,''
       @ [CHR 0x0A] @ ''      '' @ [CHR 0x22] @ ''sha256'' @ [CHR 0x22] @ '': '' @ [CHR 0x22] @ ''c34ab6abb7b2bb595bc25c3b388c872fd1d575819a8f55cc689510285e212385'' @ [CHR 0x22]
       @ [CHR 0x0A] @ ''    },''
       @ [CHR 0x0A] @ ''    {''
       @ [CHR 0x0A] @ ''      '' @ [CHR 0x22] @ ''name'' @ [CHR 0x22] @ '': '' @ [CHR 0x22] @ ''b.parquet'' @ [CHR 0x22] @ '',''
       @ [CHR 0x0A] @ ''      '' @ [CHR 0x22] @ ''size'' @ [CHR 0x22] @ '': 0,''
       @ [CHR 0x0A] @ ''      '' @ [CHR 0x22] @ ''sha256'' @ [CHR 0x22] @ '': '' @ [CHR 0x22] @ ''e3b0c44298fc1c149afbf4c8996fb92427ae41e4649b934ca495991b7852b855'' @ [CHR 0x22]
       @ [CHR 0x0A] @ ''    }''
       @ [CHR 0x0A] @ ''  ]''
       @ [CHR 0x0A] @ ''}''"
    by (rule example_text)
qed

theorem manifest_files_count_and_order_witness:
  "(create_manifest (JInt 1) example_now example_fs [''data''] [] =
      (Inr [''data'', ''manifest.json''],
       (AList.update [''data'', ''manifest.json'']
        (File (encode (json_dumps 2 (manifest_record (JInt 1) example_now []
           [file_entry ''a.parquet'' 8 ''c34ab6abb7b2bb595bc25c3b388c872fd1d575819a8f55cc689510285e212385'',
            file_entry ''b.parquet'' 0 ''e3b0c44298fc1c149afbf4c8996fb92427ae41e4649b934ca495991b7852b855'']))) True True None)
        example_fs))
    \<and> distinct (map fst example_fs))
   \<and> (\<exists>es names m bytes.
          m = manifest_record (JInt 1) example_now [] es
        \<and> m = JDict [(''schema_version'', (JInt 1)), (''generated_at'', JStr (isoformat example_now)),
                  (''cvec_db_version'', JStr ''0.1.0''), (''stats'', JDict []), (''files'', JList es)]
        \<and> dict_get m ''files'' = Some (JList es)
        \<and> read_bytes (AList.update [''data'', ''manifest.json'']
        (File (encode (json_dumps 2 (manifest_record (JInt 1) example_now []
           [file_entry ''a.parquet'' 8 ''c34ab6abb7b2bb595bc25c3b388c872fd1d575819a8f55cc689510285e212385'',
            file_entry ''b.parquet'' 0 ''e3b0c44298fc1c149afbf4c8996fb92427ae41e4649b934ca495991b7852b855'']))) True True None)
        example_fs) [''data'', ''manifest.json''] = Some bytes
        \<and> bytes = encode (json_dumps 2 m)
        \<and> map unat bytes = map of_char (json_dumps 2 m)
        \<and> list_all2 (\<lambda>n e. \<exists>nbytes digest.
               e = JDict [(''name'', JStr n), (''size'', JInt (int nbytes)), (''sha256'', JStr digest)]
             \<and> dict_get e ''name'' = Some (JStr n)) names es
        \<and> length es = length (filter (\<lambda>n. suffix ''.parquet'' n) (scandir example_fs [''data'']))
        \<and> set names = {n \<in> set (scandir example_fs [''data'']). suffix ''.parquet'' n}
        \<and> sorted names \<and> distinct names)"
proof -
  have h: "create_manifest (JInt 1) example_now example_fs [''data''] [] =
      (Inr [''data'', ''manifest.json''],
       (AList.update [''data'', ''manifest.json'']
        (File (encode (json_dumps 2 (manifest_record (JInt 1) example_now []
           [file_entry ''a.parquet'' 8 ''c34ab6abb7b2bb595bc25c3b388c872fd1d575819a8f55cc689510285e212385'',
            file_entry ''b.parquet'' 0 ''e3b0c44298fc1c149afbf4c8996fb92427ae41e4649b934ca495991b7852b855'']))) True True None)
        example_fs))
    \<and> distinct (map fst example_fs)"
    by (simp add: example_run) (simp add: example_fs_def)
  from manifest_files_count_and_order [THEN conjunct1, rule_format, OF h] h
  show ?thesis by (rule conjI [rotated])
qed

lemma create_manifest_missing_dir:
  "\<not> path_exists fs d \<Longrightarrow>
     create_manifest msv now fs d stats = (Inl (FileNotFoundError (d @ [''manifest.json''])), fs)"
  by (simp add: create_manifest_def path_glob_def is_dir_def path_exists_def write_text_def Let_def)

lemma manifest_with_missing_dir:
  "\<not> path_exists (fsys w) d \<Longrightarrow>
     manifest_with builder read_rows w (Some d) =
       (Inl (Exit 1),
        w\<lparr>stderr := stderr w @ [''Error: Directory '' @ path_str d @ '' does not exist'']\<rparr>)"
  by (simp add: manifest_with_def)

lemma manifest_with_missing_default:
  "\<not> path_exists (fsys w) [''data''] \<Longrightarrow>
     manifest_with builder read_rows w None =
       (Inl (Exit 1),
        w\<lparr>stderr := stderr w @ [''Error: Directory '' @ path_str [''data''] @ '' does not exist'']\<rparr>)"
  by (simp add: manifest_with_def)

text \<open>
  C3. When \<open>output_dir\<close> does not exist, \<open>create_manifest\<close> fails with
  \<open>FileNotFoundError\<close>, raised where the manifest is opened for writing, and leaves the
  file system as it was: no manifest is written. The \<open>manifest\<close> command, given a directory
  that does not exist (or given none when \<open>data\<close> does not exist), ends with status 1,
  having printed to the standard error one line that contains the directory's path, and
  changes nothing else; it does so whatever manifest builder it is run over, which is to
  say that it does not call the builder.
\<close>

theorem missing_directory_fails:
  assumes "\<not> path_exists fs output_dir"
  shows "create_manifest msv now fs output_dir stats
           = (Inl (FileNotFoundError (output_dir @ [''manifest.json''])), fs)
   \<and> (\<forall>w data_dir_opt read_rows.
         fsys w = fs \<and>
         (data_dir_opt = Some output_dir \<or> data_dir_opt = None \<and> output_dir = [''data'']) \<longrightarrow>
           (\<forall>builder. manifest_with builder read_rows w data_dir_opt =
              (Inl (Exit 1),
               w\<lparr>stderr := stderr w @
                    [''Error: Directory '' @ path_str output_dir @ '' does not exist'']\<rparr>))
         \<and> manifest msv now read_rows w data_dir_opt =
              (Inl (Exit 1),
               w\<lparr>stderr := stderr w @
                    [''Error: Directory '' @ path_str output_dir @ '' does not exist'']\<rparr>)
         \<and> exit_status (fst (manifest msv now read_rows w data_dir_opt)) = 1)
   \<and> sublist (path_str output_dir)
         (''Error: Directory '' @ path_str output_dir @ '' does not exist'')"
proof (intro conjI allI impI)
  show "create_manifest msv now fs output_dir stats
           = (Inl (FileNotFoundError (output_dir @ [''manifest.json''])), fs)"
    using assms by (rule create_manifest_missing_dir)
next
  fix w :: world and data_dir_opt read_rows builder
  assume a: "fsys w = fs \<and>
         (data_dir_opt = Some output_dir \<or> data_dir_opt = None \<and> output_dir = [''data''])"
  with assms show "manifest_with builder read_rows w data_dir_opt =
              (Inl (Exit 1),
               w\<lparr>stderr := stderr w @
                    [''Error: Directory '' @ path_str output_dir @ '' does not exist'']\<rparr>)"
    by (auto simp: manifest_with_missing_dir manifest_with_missing_default)
next
  fix w :: world and data_dir_opt read_rows
  assume a: "fsys w = fs \<and>
         (data_dir_opt = Some output_dir \<or> data_dir_opt = None \<and> output_dir = [''data''])"
  with assms show m: "manifest msv now read_rows w data_dir_opt =
              (Inl (Exit 1),
               w\<lparr>stderr := stderr w @
                    [''Error: Directory '' @ path_str output_dir @ '' does not exist'']\<rparr>)"
    unfolding manifest_def
    by (auto simp: manifest_with_missing_dir manifest_with_missing_default)
  then show "exit_status (fst (manifest msv now read_rows w data_dir_opt)) = 1"
    by (simp add: exit_status_def)
next
  show "sublist (path_str output_dir)
         (''Error: Directory '' @ path_str output_dir @ '' does not exist'')"
    by (rule sublist_appendI)
qed

theorem missing_directory_fails_witness:
  "\<not> path_exists example_fs [''missing'']
   \<and> create_manifest (JInt 1) example_now example_fs [''missing''] []
        = (Inl (FileNotFoundError [''missing'', ''manifest.json'']), example_fs)
   \<and> manifest (JInt 1) example_now (\<lambda>fs p. Inr 0)
        \<lparr>fsys = example_fs, stdout = [], stderr = []\<rparr> (Some [''missing''])
        = (Inl (Exit 1),
           \<lparr>fsys = example_fs, stdout = [],
            stderr = [''Error: Directory missing does not exist'']\<rparr>)
   \<and> exit_status (fst (manifest (JInt 1) example_now (\<lambda>fs p. Inr 0)
        \<lparr>fsys = example_fs, stdout = [], stderr = []\<rparr> (Some [''missing'']))) = 1"
proof -
  have h: "\<not> path_exists example_fs [''missing'']"
    by (simp add: path_exists_def example_fs_def)
  have s: "path_str [''missing''] = ''missing''"
    by (simp add: path_str_def)
  note t = missing_directory_fails [OF h, of "JInt 1" example_now "[]"]
  from t have c: "create_manifest (JInt 1) example_now example_fs [''missing''] []
        = (Inl (FileNotFoundError [''missing'', ''manifest.json'']), example_fs)"
    by simp
  let ?w = "\<lparr>fsys = example_fs, stdout = [], stderr = []\<rparr>"
  have pre: "fsys ?w = example_fs \<and>
      (Some [''missing''] = Some [''missing''] \<or> Some [''missing''] = None \<and> [''missing''] = [''data''])"
    by simp
  from t [THEN conjunct2, THEN conjunct1, rule_format, OF pre, of "\<lambda>fs p. Inr 0"]
  have "manifest (JInt 1) example_now (\<lambda>fs p. Inr 0) ?w (Some [''missing''])
        = (Inl (Exit 1),
           ?w\<lparr>stderr := stderr ?w @
                    [''Error: Directory '' @ path_str [''missing''] @ '' does not exist'']\<rparr>)
     \<and> exit_status (fst (manifest (JInt 1) example_now (\<lambda>fs p. Inr 0) ?w (Some [''missing'']))) = 1"
    by (rule conjunct2)
  then have "manifest (JInt 1) example_now (\<lambda>fs p. Inr 0) ?w (Some [''missing''])
        = (Inl (Exit 1),
           \<lparr>fsys = example_fs, stdout = [],
            stderr = [''Error: Directory missing does not exist'']\<rparr>)
     \<and> exit_status (fst (manifest (JInt 1) example_now (\<lambda>fs p. Inr 0) ?w (Some [''missing'']))) = 1"
    by (simp add: s exit_status_def)
  with h c show ?thesis by (simp add: exit_status_def)
qed

lemma scan_files_Inl:
  "scan_files fs ps acc = Inl e \<Longrightarrow>
     \<exists>q\<in>set ps. e = FileNotFoundError q \<or> e = IsADirectoryError q
                \<or> e = PermissionError q \<or> e = OSError q"
proof (induction ps arbitrary: acc)
  case Nil
  then show ?case by simp
next
  case (Cons p ps)
  show ?case
  proof (cases "open_rb fs p")
    case (Inl e')
    with Cons.prems have "e = e'" by simp
    with Inl show ?thesis
      by (auto simp: open_rb_def split: option.splits node.splits if_splits)
  next
    case (Inr f)
    then have f: "h_path f = p"
      by (auto simp: open_rb_def split: option.splits node.splits if_splits)
    show ?thesis
    proof (cases "hash_chunks f sha256_new")
      case (Inl e')
      with Inr Cons.prems have "e = e'" by simp
      with Inl f show ?thesis
        by (auto simp: hash_chunks_eq split: option.splits if_splits)
    next
      case sha: (Inr sha)
      show ?thesis
      proof (cases "path_stat fs p")
        case (Inl e')
        with Inr sha Cons.prems have "e = e'" by simp
        with Inl show ?thesis
          by (auto simp: path_stat_def split: option.splits node.splits)
      next
        case st: (Inr st)
        with Inr sha Cons.prems
        have "scan_files fs ps (acc @ [file_entry (last p) (st_size st) (hexdigest sha)]) = Inl e"
          by simp
        from Cons.IH [OF this] show ?thesis by auto
      qed
    qed
  qed
qed

text \<open>
  C4. When one of the matched data files cannot be read, because the process may not
  open it or because a read fails at a byte inside it, \<open>create_manifest\<close> ends with the
  error raised at a matched file and leaves the file system as it was, the manifest of
  an earlier run included. Whatever the error, a failing call writes nothing: there is
  no manifest with entries missing.
\<close>

theorem unreadable_file_aborts:
  assumes "pq \<in> set (path_glob fs output_dir ''*.parquet'')"
    and "map_of fs pq = Some (File c r wr b)"
    and "\<not> r \<or> (\<exists>k. b = Some k \<and> k < length c)"
  shows "(\<exists>e q. create_manifest msv now fs output_dir stats = (Inl e, fs)
            \<and> q \<in> set (path_glob fs output_dir ''*.parquet'')
            \<and> (e = FileNotFoundError q \<or> e = IsADirectoryError q
                \<or> e = PermissionError q \<or> e = OSError q))
       \<and> map_of (snd (create_manifest msv now fs output_dir stats)) (output_dir @ [''manifest.json''])
           = map_of fs (output_dir @ [''manifest.json''])
       \<and> (\<forall>msv' now' fs0 d stats' e fs'.
             create_manifest msv' now' fs0 d stats' = (Inl e, fs') \<longrightarrow> fs' = fs0)"
proof -
  let ?ps = "sort (path_glob fs output_dir ''*.parquet'')"
  have "\<exists>e. scan_files fs ?ps [] = Inl e"
  proof (cases "scan_files fs ?ps []")
    case (Inl e)
    then show ?thesis by blast
  next
    case (Inr out)
    from assms(1) have "pq \<in> set ?ps" by simp
    from scan_files_fails [OF Inr this] assms(2,3) show ?thesis
      by auto
  qed
  then obtain e where e: "scan_files fs ?ps [] = Inl e" by blast
  from scan_files_Inl [OF e] obtain q where
    q: "q \<in> set (path_glob fs output_dir ''*.parquet'')"
       "e = FileNotFoundError q \<or> e = IsADirectoryError q \<or> e = PermissionError q \<or> e = OSError q"
    by auto
  have r: "create_manifest msv now fs output_dir stats = (Inl e, fs)"
    using e by (simp add: create_manifest_def)
  have all: "\<forall>msv' now' fs0 d stats' e fs'.
             create_manifest msv' now' fs0 d stats' = (Inl e, fs') \<longrightarrow> fs' = fs0"
    by (blast dest: create_manifest_Inl)
  from r q all show ?thesis
    by auto
qed

lemma locked_run:
  "create_manifest msv now locked_fs [''data''] stats =
     (Inl (PermissionError [''data'', ''b.parquet'']), locked_fs)"
proof -
  have paths: "sort (path_glob locked_fs [''data''] ''*.parquet'') =
     [[''data'', ''a.parquet''], [''data'', ''b.parquet'']]"
    by (simp add: path_glob_def is_dir_def scandir_def locked_fs_def)
  show ?thesis
    unfolding create_manifest_def paths
    by (simp add: locked_fs_def open_rb_def hash_chunks_eq path_stat_def sha256_new_def)
qed

lemma damaged_run:
  "create_manifest msv now damaged_fs [''data''] stats =
     (Inl (OSError [''data'', ''a.parquet'']), damaged_fs)"
proof -
  have paths: "sort (path_glob damaged_fs [''data''] ''*.parquet'') = [[''data'', ''a.parquet'']]"
    by (simp add: path_glob_def is_dir_def scandir_def damaged_fs_def)
  show ?thesis
    unfolding create_manifest_def paths
    by (simp add: damaged_fs_def open_rb_def hash_chunks_eq path_stat_def sha256_new_def)
qed

theorem unreadable_file_aborts_witness:
  "([''data'', ''b.parquet''] \<in> set (path_glob locked_fs [''data''] ''*.parquet'')
    \<and> map_of locked_fs [''data'', ''b.parquet''] = Some (File [0x01, 0x02, 0x03] False True None))
   \<and> create_manifest (JInt 1) example_now locked_fs [''data''] []
        = (Inl (PermissionError [''data'', ''b.parquet'']), locked_fs)
   \<and> map_of (snd (create_manifest (JInt 1) example_now locked_fs [''data''] []))
        [''data'', ''manifest.json''] = Some (File [0x7B, 0x7D] True True None)"
proof -
  have h1: "[''data'', ''b.parquet''] \<in> set (path_glob locked_fs [''data''] ''*.parquet'')"
    by (simp add: path_glob_def is_dir_def scandir_def locked_fs_def)
  have h2: "map_of locked_fs [''data'', ''b.parquet''] = Some (File [0x01, 0x02, 0x03] False True None)"
    by (simp add: locked_fs_def)
  have h3: "\<not> False \<or> (\<exists>k. None = Some k \<and> k < length [0x01, 0x02, 0x03 :: byte])"
    by simp
  have m: "map_of locked_fs ([''data''] @ [''manifest.json'']) = Some (File [0x7B, 0x7D] True True None)"
    by (simp add: locked_fs_def)
  from unreadable_file_aborts [OF h1 h2 h3, of "JInt 1" example_now "[]"]
  have "map_of (snd (create_manifest (JInt 1) example_now locked_fs [''data''] []))
          ([''data''] @ [''manifest.json'']) = map_of locked_fs ([''data''] @ [''manifest.json''])"
    by blast
  with m have "map_of (snd (create_manifest (JInt 1) example_now locked_fs [''data''] []))
        [''data'', ''manifest.json''] = Some (File [0x7B, 0x7D] True True None)"
    by simp
  with h1 h2 locked_run [of "JInt 1" example_now "[]"] show ?thesis
    by blast
qed






lemma length_digits: "n < 10 ^ w \<Longrightarrow> 0 < w \<Longrightarrow> length (digits n) \<le> w"
proof (induction n arbitrary: w rule: digits.induct)
  case (1 n)
  show ?case
  proof (cases "n < 10")
    case True
    with 1 show ?thesis by (subst digits.simps) simp
  next
    case False
    with "1.prems" obtain v where w: "w = Suc v" by (cases w) auto
    with "1.prems" False have v: "0 < v" by (cases v) auto
    from "1.prems" w have "n div 10 < 10 ^ v"
      by (simp add: less_mult_imp_div_less mult.commute)
    with "1.IH" False v have "length (digits (n div 10)) \<le> v" by simp
    with False w show ?thesis by (subst digits.simps) simp
  qed
qed

lemma length_zpad: "n < 10 ^ w \<Longrightarrow> 0 < w \<Longrightarrow> length (zpad w n) = w"
  using length_digits [of n w] by (simp add: zpad_def)






lemma path_glob_not_manifest:
  "q \<in> set (path_glob fs d ''*.parquet'') \<Longrightarrow> q \<noteq> d @ [''manifest.json'']"
  using not_parquet_manifest by (auto simp: path_glob_set split: if_splits)


lemma manifest_record_fields:
  "dict_get (manifest_record msv now stats es) ''schema_version'' = Some msv"
  "dict_get (manifest_record msv now stats es) ''generated_at'' = Some (JStr (isoformat now))"
  "dict_get (manifest_record msv now stats es) ''cvec_db_version'' = Some (JStr ''0.1.0'')"
  "dict_get (manifest_record msv now stats es) ''stats'' = Some (JDict stats)"
  "dict_get (manifest_record msv now stats es) ''files'' = Some (JList es)"
  "dict_keys (manifest_record msv now stats es) =
     [''schema_version'', ''generated_at'', ''cvec_db_version'', ''stats'', ''files'']"
  by (simp_all add: manifest_record_def)



lemma isoformat_offset: "suffix ''+00:00'' (isoformat now)"
proof -
  have "isoformat now =
      (zpad 4 (year now) @ ''-'' @ zpad 2 (month now) @ ''-'' @ zpad 2 (day now) @ ''T''
       @ zpad 2 (hour now) @ '':'' @ zpad 2 (minute now) @ '':'' @ zpad 2 (second now)
       @ (if microsecond now \<noteq> 0 then ''.'' @ zpad 6 (microsecond now) else [])) @ ''+00:00''"
    by (simp add: isoformat_def)
  then show ?thesis
    by (metis suffixI)
qed

lemma length_isoformat:
  "valid_datetime now \<Longrightarrow> length (isoformat now) = (if microsecond now = 0 then 25 else 32)"
  by (simp add: isoformat_def valid_datetime_def length_zpad)

text \<open>
  C6. The manifest \<open>create_manifest\<close> writes is a dictionary with the five keys
  \<open>schema_version\<close>, \<open>generated_at\<close>, \<open>cvec_db_version\<close>, \<open>stats\<close> and \<open>files\<close>, in this order:
  the schema-version constant, the ISO format of the clock's reading in UTC, which ends
  with the offset \<open>+00:00\<close>, the string \<open>0.1.0\<close>, the stats and the entries. It is written
  as \<open>json.dumps\<close> with indent 2 renders it, each key between quotes on a line of its
  own, indented by two spaces, in the order above. The file written is \<open>manifest.json\<close> in
  \<open>output_dir\<close>, whatever that path held before: afterwards its bytes are the character
  codes of that text, one byte for each character, and its path is what the function
  returns.
\<close>

theorem manifest_record_written:
  assumes "create_manifest msv now fs output_dir stats = (Inr p, fs')"
  shows "p = output_dir @ [''manifest.json'']
    \<and> (\<exists>es m bytes. m = manifest_record msv now stats es
          \<and> m = JDict [(''schema_version'', msv), (''generated_at'', JStr (isoformat now)),
                  (''cvec_db_version'', JStr ''0.1.0''), (''stats'', JDict stats), (''files'', JList es)]
          \<and> read_bytes fs' p = Some bytes
          \<and> bytes = encode (json_dumps 2 m)
          \<and> map unat bytes = map of_char (json_dumps 2 m)
          \<and> length bytes = length (json_dumps 2 m)
          \<and> read_bytes fs' p = Some (encode (json_dumps 2 m))
          \<and> dict_keys m = [''schema_version'', ''generated_at'', ''cvec_db_version'', ''stats'', ''files'']
          \<and> dict_get m ''schema_version'' = Some msv
          \<and> dict_get m ''generated_at'' = Some (JStr (isoformat now))
          \<and> dict_get m ''cvec_db_version'' = Some (JStr ''0.1.0'')
          \<and> dict_get m ''stats'' = Some (JDict stats)
          \<and> dict_get m ''files'' = Some (JList es)
          \<and> json_dumps 2 m =
               ''{'' @ newline_indent 2 1
               @ join ('','' @ newline_indent 2 1)
                   [encode_basestring ''schema_version'' @ '': '' @ iterencode 2 1 msv,
                    encode_basestring ''generated_at'' @ '': '' @ encode_basestring (isoformat now),
                    encode_basestring ''cvec_db_version'' @ '': '' @ encode_basestring ''0.1.0'',
                    encode_basestring ''stats'' @ '': '' @ iterencode 2 1 (JDict stats),
                    encode_basestring ''files'' @ '': '' @ iterencode 2 1 (JList es)]
               @ newline_indent 2 0 @ ''}'')
    \<and> suffix ''+00:00'' (isoformat now)
    \<and> newline_indent 2 1 = [CHR 0x0A, CHR '' '', CHR '' '']
    \<and> newline_indent 2 0 = [CHR 0x0A]
    \<and> encode_basestring ''schema_version'' = [CHR 0x22] @ ''schema_version'' @ [CHR 0x22]
    \<and> encode_basestring ''generated_at'' = [CHR 0x22] @ ''generated_at'' @ [CHR 0x22]
    \<and> encode_basestring ''cvec_db_version'' = [CHR 0x22] @ ''cvec_db_version'' @ [CHR 0x22]
    \<and> encode_basestring ''stats'' = [CHR 0x22] @ ''stats'' @ [CHR 0x22]
    \<and> encode_basestring ''files'' = [CHR 0x22] @ ''files'' @ [CHR 0x22]"
proof -
  from create_manifest_Inr [OF assms] obtain es where
    p: "p = output_dir @ [''manifest.json'']"
    and w: "write_text fs p (json_dumps 2 (manifest_record msv now stats es)) = Inr fs'"
    by blast
  let ?m = "manifest_record msv now stats es"
  have m: "?m = JDict [(''schema_version'', msv), (''generated_at'', JStr (isoformat now)),
                  (''cvec_db_version'', JStr ''0.1.0''), (''stats'', JDict stats), (''files'', JList es)]"
    by (simp add: manifest_record_def)
  have rb: "read_bytes fs' p = Some (encode (json_dumps 2 ?m))"
    by (rule write_text_read [OF w])
  have bytes: "map unat (encode (json_dumps 2 ?m)) = map of_char (json_dumps 2 ?m)"
    by (rule encode_bytes)
  have len: "length (encode (json_dumps 2 ?m)) = length (json_dumps 2 ?m)"
    by (simp add: encode_def)
  have nl: "newline_indent 2 1 = [CHR 0x0A, CHR '' '', CHR '' '']"
    by (simp add: newline_indent_def replicate_numeral)
  have nl0: "newline_indent 2 0 = [CHR 0x0A]"
    by (simp add: newline_indent_def)
  have keys: "encode_basestring ''schema_version'' = [CHR 0x22] @ ''schema_version'' @ [CHR 0x22]"
    "encode_basestring ''generated_at'' = [CHR 0x22] @ ''generated_at'' @ [CHR 0x22]"
    "encode_basestring ''cvec_db_version'' = [CHR 0x22] @ ''cvec_db_version'' @ [CHR 0x22]"
    "encode_basestring ''stats'' = [CHR 0x22] @ ''stats'' @ [CHR 0x22]"
    "encode_basestring ''files'' = [CHR 0x22] @ ''files'' @ [CHR 0x22]"
    by (simp_all add: encode_basestring_def escape_char_def)
  show ?thesis
  proof (intro conjI)
    show "p = output_dir @ [''manifest.json'']"
      by (rule p)
    show "\<exists>es m bytes. m = manifest_record msv now stats es
          \<and> m = JDict [(''schema_version'', msv), (''generated_at'', JStr (isoformat now)),
                  (''cvec_db_version'', JStr ''0.1.0''), (''stats'', JDict stats), (''files'', JList es)]
          \<and> read_bytes fs' p = Some bytes
          \<and> bytes = encode (json_dumps 2 m)
          \<and> map unat bytes = map of_char (json_dumps 2 m)
          \<and> length bytes = length (json_dumps 2 m)
          \<and> read_bytes fs' p = Some (encode (json_dumps 2 m))
          \<and> dict_keys m = [''schema_version'', ''generated_at'', ''cvec_db_version'', ''stats'', ''files'']
          \<and> dict_get m ''schema_version'' = Some msv
          \<and> dict_get m ''generated_at'' = Some (JStr (isoformat now))
          \<and> dict_get m ''cvec_db_version'' = Some (JStr ''0.1.0'')
          \<and> dict_get m ''stats'' = Some (JDict stats)
          \<and> dict_get m ''files'' = Some (JList es)
          \<and> json_dumps 2 m =
               ''{'' @ newline_indent 2 1
               @ join ('','' @ newline_indent 2 1)
                   [encode_basestring ''schema_version'' @ '': '' @ iterencode 2 1 msv,
                    encode_basestring ''generated_at'' @ '': '' @ encode_basestring (isoformat now),
                    encode_basestring ''cvec_db_version'' @ '': '' @ encode_basestring ''0.1.0'',
                    encode_basestring ''stats'' @ '': '' @ iterencode 2 1 (JDict stats),
                    encode_basestring ''files'' @ '': '' @ iterencode 2 1 (JList es)]
               @ newline_indent 2 0 @ ''}''"
      by (intro exI [of _ es] exI [of _ ?m] exI [of _ "encode (json_dumps 2 ?m)"] conjI)
         (rule refl m rb bytes len manifest_record_fields manifest_text_layout)+
    show "suffix ''+00:00'' (isoformat now)"
      by (rule isoformat_offset)
    show "newline_indent 2 1 = [CHR 0x0A, CHR '' '', CHR '' '']"
      by (rule nl)
    show "newline_indent 2 0 = [CHR 0x0A]"
      by (rule nl0)
  qed (rule keys)+
qed

theorem manifest_record_written_witness:
  "create_manifest (JInt 1) example_now example_fs [''data''] [(''cves'', JInt 42)] =
      (Inr [''data'', ''manifest.json''],
       (AList.update [''data'', ''manifest.json'']
        (File (encode (json_dumps 2 (manifest_record (JInt 1) example_now [(''cves'', JInt 42)]
           [file_entry ''a.parquet'' 8 ''c34ab6abb7b2bb595bc25c3b388c872fd1d575819a8f55cc689510285e212385'',
            file_entry ''b.parquet'' 0 ''e3b0c44298fc1c149afbf4c8996fb92427ae41e4649b934ca495991b7852b855'']))) True True None)
        example_fs))
   \<and> read_bytes example_fs [''data'', ''manifest.json''] = Some [0x7B, 0x7D]
   \<and> [''data'', ''manifest.json''] = [''data''] @ [''manifest.json'']
   \<and> (\<exists>es m bytes. m = manifest_record (JInt 1) example_now [(''cves'', JInt 42)] es
          \<and> read_bytes (AList.update [''data'', ''manifest.json'']
        (File (encode (json_dumps 2 (manifest_record (JInt 1) example_now [(''cves'', JInt 42)]
           [file_entry ''a.parquet'' 8 ''c34ab6abb7b2bb595bc25c3b388c872fd1d575819a8f55cc689510285e212385'',
            file_entry ''b.parquet'' 0 ''e3b0c44298fc1c149afbf4c8996fb92427ae41e4649b934ca495991b7852b855'']))) True True None)
        example_fs) [''data'', ''manifest.json''] = Some bytes
          \<and> map unat bytes = map of_char (json_dumps 2 m)
          \<and> dict_keys m = [''schema_version'', ''generated_at'', ''cvec_db_version'', ''stats'', ''files'']
          \<and> dict_get m ''schema_version'' = Some (JInt 1)
          \<and> dict_get m ''generated_at'' = Some (JStr ''2024-01-02T03:04:05+00:00'')
          \<and> dict_get m ''cvec_db_version'' = Some (JStr ''0.1.0''))
   \<and> read_bytes (AList.update [''data'', ''manifest.json'']
        (File (encode (json_dumps 2 (manifest_record (JInt 1) example_now [(''cves'', JInt 42)]
           [file_entry ''a.parquet'' 8 ''c34ab6abb7b2bb595bc25c3b388c872fd1d575819a8f55cc689510285e212385'',
            file_entry ''b.parquet'' 0 ''e3b0c44298fc1c149afbf4c8996fb92427ae41e4649b934ca495991b7852b855'']))) True True None)
        example_fs) [''data'', ''manifest.json'']
       = Some (encode
          (''{''
       @ [CHR 0x0A] @ ''  '' @ [CHR 0x22] @ ''schema_version'' @ [CHR 0x22] @ '': 1,''
       @ [CHR 0x0A] @ ''  '' @ [CHR 0x22] @ ''generated_at'' @ [CHR 0x22] @ '': '' @ [CHR 0x22] @ ''2024-01-02T03:04:05+00:00'' @ [CHR 0x22] @ '',''
       @ [CHR 0x0A] @ ''  '' @ [CHR 0x22] @ ''cvec_db_version'' @ [CHR 0x22] @ '': '' @ [CHR 0x22] @ ''0.1.0'' @ [CHR 0x22] @ '',''
       @ [CHR 0x0A] @ ''  '' @ [CHR 0x22] @ ''stats'' @ [CHR 0x22] @ '': {''
       @ [CHR 0x0A] @ ''    '' @ [CHR 0x22] @ ''cves'' @ [CHR 0x22] @ '': 42''
       @ [CHR 0x0A] @ ''  },''
       @ [CHR 0x0A] @ ''  '' @ [CHR 0x22] @ ''files'' @ [CHR 0x22] @ '': [''
       @ [CHR 0x0A] @ ''    {''
       @ [CHR 0x0A] @ ''      '' @ [CHR 0x22] @ ''name'' @ [CHR 0x22] @ '': '' @ [CHR 0x22] @ ''a.parquet'' @ [CHR 0x22] @ '',''
       @ [CHR 0x0A] @ ''      '' @ [CHR 0x22] @ ''size'' @ [CHR 0x22] @ '': 8,''
       @ [CHR 0x0A] @ ''      '' @ [CHR 0x22] @ ''sha256'' @ [CHR 0x22] @ '': '' @ [CHR 0x22] @ ''c34ab6abb7b2bb595bc25c3b388c872fd1d575819a8f55cc689510285e212385'' @ [CHR 0x22]
       @ [CHR 0x0A] @ ''    },''
       @ [CHR 0x0A] @ ''    {''
       @ [CHR 0x0A] @ ''      '' @ [CHR 0x22] @ ''name'' @ [CHR 0x22] @ '': '' @ [CHR 0x22] @ ''b.parquet'' @ [CHR 0x22] @ '',''
       @ [CHR 0x0A] @ ''      '' @ [CHR 0x22] @ ''size'' @ [CHR 0x22] @ '': 0,''
       @ [CHR 0x0A] @ ''      '' @ [CHR 0x22] @ ''sha256'' @ [CHR 0x22] @ '': '' @ [CHR 0x22] @ ''e3b0c44298fc1c149afbf4c8996fb92427ae41e4649b934ca495991b7852b855'' @ [CHR 0x22]
       @ [CHR 0x0A] @ ''    }''
       @ [CHR 0x0A] @ ''  ]''
       @ [CHR 0x0A] @ ''}''))"
proof -
  have old: "read_bytes example_fs [''data'', ''manifest.json''] = Some [0x7B, 0x7D]"
    by (simp add: read_bytes_def example_fs_def)
  have iso: "isoformat example_now = ''2024-01-02T03:04:05+00:00''"
    by (simp add: isoformat_def example_now_def zpad_def digits.simps digit_def)
  note run = example_run [of "JInt 1" example_now "[(''cves'', JInt 42)]"]
  from manifest_record_written [OF run]
  have "\<exists>es m bytes. m = manifest_record (JInt 1) example_now [(''cves'', JInt 42)] es
          \<and> read_bytes (AList.update [''data'', ''manifest.json'']
        (File (encode (json_dumps 2 (manifest_record (JInt 1) example_now [(''cves'', JInt 42)]
           [file_entry ''a.parquet'' 8 ''c34ab6abb7b2bb595bc25c3b388c872fd1d575819a8f55cc689510285e212385'',
            file_entry ''b.parquet'' 0 ''e3b0c44298fc1c149afbf4c8996fb92427ae41e4649b934ca495991b7852b855'']))) True True None)
        example_fs) [''data'', ''manifest.json''] = Some bytes
          \<and> map unat bytes = map of_char (json_dumps 2 m)
          \<and> dict_keys m = [''schema_version'', ''generated_at'', ''cvec_db_version'', ''stats'', ''files'']
          \<and> dict_get m ''schema_version'' = Some (JInt 1)
          \<and> dict_get m ''generated_at'' = Some (JStr (isoformat example_now))
          \<and> dict_get m ''cvec_db_version'' = Some (JStr ''0.1.0'')"
    by blast
  then have ex: "\<exists>es m bytes. m = manifest_record (JInt 1) example_now [(''cves'', JInt 42)] es
          \<and> read_bytes (AList.update [''data'', ''manifest.json'']
        (File (encode (json_dumps 2 (manifest_record (JInt 1) example_now [(''cves'', JInt 42)]
           [file_entry ''a.parquet'' 8 ''c34ab6abb7b2bb595bc25c3b388c872fd1d575819a8f55cc689510285e212385'',
            file_entry ''b.parquet'' 0 ''e3b0c44298fc1c149afbf4c8996fb92427ae41e4649b934ca495991b7852b855'']))) True True None)
        example_fs) [''data'', ''manifest.json''] = Some bytes
          \<and> map unat bytes = map of_char (json_dumps 2 m)
          \<and> dict_keys m = [''schema_version'', ''generated_at'', ''cvec_db_version'', ''stats'', ''files'']
          \<and> dict_get m ''schema_version'' = Some (JInt 1)
          \<and> dict_get m ''generated_at'' = Some (JStr ''2024-01-02T03:04:05+00:00'')
          \<and> dict_get m ''cvec_db_version'' = Some (JStr ''0.1.0'')"
    by (simp only: iso)
  have "read_bytes (AList.update [''data'', ''manifest.json'']
        (File (encode (json_dumps 2 (manifest_record (JInt 1) example_now [(''cves'', JInt 42)]
           [file_entry ''a.parquet'' 8 ''c34ab6abb7b2bb595bc25c3b388c872fd1d575819a8f55cc689510285e212385'',
            file_entry ''b.parquet'' 0 ''e3b0c44298fc1c149afbf4c8996fb92427ae41e4649b934ca495991b7852b855'']))) True True None)
        example_fs) [''data'', ''manifest.json'']
       = Some (encode (json_dumps 2 (manifest_record (JInt 1) example_now [(''cves'', JInt 42)]
           [file_entry ''a.parquet'' 8 ''c34ab6abb7b2bb595bc25c3b388c872fd1d575819a8f55cc689510285e212385'',
            file_entry ''b.parquet'' 0 ''e3b0c44298fc1c149afbf4c8996fb92427ae41e4649b934ca495991b7852b855''])))"
    by (simp add: read_bytes_def update_conv')
  then have written: "read_bytes (AList.update [''data'', ''manifest.json'']
        (File (encode (json_dumps 2 (manifest_record (JInt 1) example_now [(''cves'', JInt 42)]
           [file_entry ''a.parquet'' 8 ''c34ab6abb7b2bb595bc25c3b388c872fd1d575819a8f55cc689510285e212385'',
            file_entry ''b.parquet'' 0 ''e3b0c44298fc1c149afbf4c8996fb92427ae41e4649b934ca495991b7852b855'']))) True True None)
        example_fs) [''data'', ''manifest.json'']
       = Some (encode
          (''{''
       @ [CHR 0x0A] @ ''  '' @ [CHR 0x22] @ ''schema_version'' @ [CHR 0x22] @ '': 1,''
       @ [CHR 0x0A] @ ''  '' @ [CHR 0x22] @ ''generated_at'' @ [CHR 0x22] @ '': '' @ [CHR 0x22] @ ''2024-01-02T03:04:05+00:00'' @ [CHR 0x22] @ '',''
       @ [CHR 0x0A] @ ''  '' @ [CHR 0x22] @ ''cvec_db_version'' @ [CHR 0x22] @ '': '' @ [CHR 0x22] @ ''0.1.0'' @ [CHR 0x22] @ '',''
       @ [CHR 0x0A] @ ''  '' @ [CHR 0x22] @ ''stats'' @ [CHR 0x22] @ '': {''
       @ [CHR 0x0A] @ ''    '' @ [CHR 0x22] @ ''cves'' @ [CHR 0x22] @ '': 42''
       @ [CHR 0x0A] @ ''  },''
       @ [CHR 0x0A] @ ''  '' @ [CHR 0x22] @ ''files'' @ [CHR 0x22] @ '': [''
       @ [CHR 0x0A] @ ''    {''
       @ [CHR 0x0A] @ ''      '' @ [CHR 0x22] @ ''name'' @ [CHR 0x22] @ '': '' @ [CHR 0x22] @ ''a.parquet'' @ [CHR 0x22] @ '',''
       @ [CHR 0x0A] @ ''      '' @ [CHR 0x22] @ ''size'' @ [CHR 0x22] @ '': 8,''
       @ [CHR 0x0A] @ ''      '' @ [CHR 0x22] @ ''sha256'' @ [CHR 0x22] @ '': '' @ [CHR 0x22] @ ''c34ab6abb7b2bb595bc25c3b388c872fd1d575819a8f55cc689510285e212385'' @ [CHR 0x22]
       @ [CHR 0x0A] @ ''    },''
       @ [CHR 0x0A] @ ''    {''
       @ [CHR 0x0A] @ ''      '' @ [CHR 0x22] @ ''name'' @ [CHR 0x22] @ '': '' @ [CHR 0x22] @ ''b.parquet'' @ [CHR 0x22] @ '',''
       @ [CHR 0x0A] @ ''      '' @ [CHR 0x22] @ ''size'' @ [CHR 0x22] @ '': 0,''
       @ [CHR 0x0A] @ ''      '' @ [CHR 0x22] @ ''sha256'' @ [CHR 0x22] @ '': '' @ [CHR 0x22] @ ''e3b0c44298fc1c149afbf4c8996fb92427ae41e4649b934ca495991b7852b855'' @ [CHR 0x22]
       @ [CHR 0x0A] @ ''    }''
       @ [CHR 0x0A] @ ''  ]''
       @ [CHR 0x0A] @ ''}''))"
    by (simp only: example_record example_text)
  have app: "[''data'', ''manifest.json''] = [''data''] @ [''manifest.json'']"
    by simp
  from run old app ex written show ?thesis
    by (intro conjI)
qed






text \<open>
  C8, as stated, fails. An existing directory with no data files makes
  \<open>create_manifest\<close> raise where it opens the manifest for writing when
  \<open>manifest.json\<close> is a directory (\<open>IsADirectoryError\<close>), when it is a file the process may
  not write, and when it is missing and the process may not create entries in the
  directory (\<open>PermissionError\<close> both times). Nothing is written in any of the three.
\<close>

theorem no_data_files_counterexample:
  "(is_dir blocked_fs [''data'']
    \<and> filter (\<lambda>n. suffix ''.parquet'' n) (scandir blocked_fs [''data'']) = []
    \<and> create_manifest (JInt 1) example_now blocked_fs [''data''] []
         = (Inl (IsADirectoryError [''data'', ''manifest.json'']), blocked_fs))
   \<and> (is_dir readonly_manifest_fs [''data'']
    \<and> filter (\<lambda>n. suffix ''.parquet'' n) (scandir readonly_manifest_fs [''data'']) = []
    \<and> create_manifest (JInt 1) example_now readonly_manifest_fs [''data''] []
         = (Inl (PermissionError [''data'', ''manifest.json'']), readonly_manifest_fs))
   \<and> (is_dir readonly_dir_fs [''data'']
    \<and> filter (\<lambda>n. suffix ''.parquet'' n) (scandir readonly_dir_fs [''data'']) = []
    \<and> create_manifest (JInt 1) example_now readonly_dir_fs [''data''] []
         = (Inl (PermissionError [''data'', ''manifest.json'']), readonly_dir_fs))"
  by (simp add: create_manifest_def path_glob_def is_dir_def scandir_def blocked_fs_def
        readonly_manifest_fs_def readonly_dir_fs_def write_text_def Let_def suffix_def)

text \<open>
  C8, amended. For every existing directory that has no entry whose name ends in
  \<open>.parquet\<close>, and in which \<open>manifest.json\<close> is either a regular file the process may
  write or is missing while the process may create entries in the directory,
  \<open>create_manifest\<close> returns the path of the manifest, and the manifest written has the
  empty list as its \<open>files\<close>, which its text shows as \<open>[]\<close> after the key.
\<close>

theorem no_data_files_empty_manifest:
  assumes "is_dir fs output_dir"
    and "\<forall>n\<in>set (scandir fs output_dir). \<not> suffix ''.parquet'' n"
    and "(\<exists>c r b. map_of fs (output_dir @ [''manifest.json'']) = Some (File c r True b))
         \<or> (map_of fs (output_dir @ [''manifest.json'']) = None
            \<and> map_of fs output_dir = Some (Dir True))"
  shows "\<exists>fs' m bytes.
             create_manifest msv now fs output_dir stats
                = (Inr (output_dir @ [''manifest.json'']), fs')
           \<and> m = manifest_record msv now stats []
           \<and> m = JDict [(''schema_version'', msv), (''generated_at'', JStr (isoformat now)),
                  (''cvec_db_version'', JStr ''0.1.0''), (''stats'', JDict stats), (''files'', JList [])]
           \<and> dict_get m ''files'' = Some (JList [])
           \<and> read_bytes fs' (output_dir @ [''manifest.json'']) = Some bytes
           \<and> bytes = encode (json_dumps 2 m)
           \<and> map unat bytes = map of_char (json_dumps 2 m)
           \<and> sublist (encode_basestring ''files'' @ '': []'') (json_dumps 2 m)"
proof -
  from assms(2) have "filter (\<lambda>n. fnmatch n ''*.parquet'') (scandir fs output_dir) = []"
    by (simp add: fnmatch_parquet filter_empty_conv)
  then have glob: "path_glob fs output_dir ''*.parquet'' = []"
    by (simp add: path_glob_def)
  let ?m = "manifest_record msv now stats []"
  from assms(1,3) obtain fs' where
    w: "write_text fs (output_dir @ [''manifest.json'']) (json_dumps 2 ?m) = Inr fs'"
    using write_text_ok_file write_text_ok_new by blast
  have run: "create_manifest msv now fs output_dir stats
               = (Inr (output_dir @ [''manifest.json'']), fs')"
    using w by (simp add: create_manifest_def glob Let_def)
  have m: "?m = JDict [(''schema_version'', msv), (''generated_at'', JStr (isoformat now)),
                  (''cvec_db_version'', JStr ''0.1.0''), (''stats'', JDict stats), (''files'', JList [])]"
    by (simp add: manifest_record_def)
  have files: "dict_get ?m ''files'' = Some (JList [])"
    by (rule manifest_record_fields(5))
  have rb: "read_bytes fs' (output_dir @ [''manifest.json'']) = Some (encode (json_dumps 2 ?m))"
    by (rule write_text_read [OF w])
  have bytes: "map unat (encode (json_dumps 2 ?m)) = map of_char (json_dumps 2 ?m)"
    by (rule encode_bytes)
  have "json_dumps 2 ?m =
     (''{'' @ newline_indent 2 1
       @ encode_basestring ''schema_version'' @ '': '' @ iterencode 2 1 msv
       @ '','' @ newline_indent 2 1
       @ encode_basestring ''generated_at'' @ '': '' @ encode_basestring (isoformat now)
       @ '','' @ newline_indent 2 1
       @ encode_basestring ''cvec_db_version'' @ '': '' @ encode_basestring ''0.1.0''
       @ '','' @ newline_indent 2 1
       @ encode_basestring ''stats'' @ '': '' @ iterencode 2 1 (JDict stats)
       @ '','' @ newline_indent 2 1)
     @ (encode_basestring ''files'' @ '': []'')
     @ (newline_indent 2 0 @ ''}'')"
    by (simp add: manifest_text_layout)
  then have sub: "sublist (encode_basestring ''files'' @ '': []'') (json_dumps 2 ?m)"
    by (simp only: sublist_appendI)
  show ?thesis
    by (intro exI [of _ fs'] exI [of _ ?m] exI [of _ "encode (json_dumps 2 ?m)"] conjI)
       (rule refl run m files rb bytes sub)+
qed

theorem no_data_files_empty_manifest_witness:
  "is_dir plain_fs [''data'']
   \<and> set (scandir plain_fs [''data'']) = {''notes.txt''}
   \<and> map_of plain_fs ([''data''] @ [''manifest.json'']) = None
   \<and> map_of plain_fs [''data''] = Some (Dir True)
   \<and> (\<exists>fs' m bytes.
             create_manifest (JInt 1) example_now plain_fs [''data''] []
                = (Inr ([''data''] @ [''manifest.json'']), fs')
           \<and> m = manifest_record (JInt 1) example_now [] []
           \<and> m = JDict [(''schema_version'', (JInt 1)), (''generated_at'', JStr (isoformat example_now)),
                  (''cvec_db_version'', JStr ''0.1.0''), (''stats'', JDict []), (''files'', JList [])]
           \<and> dict_get m ''files'' = Some (JList [])
           \<and> read_bytes fs' ([''data''] @ [''manifest.json'']) = Some bytes
           \<and> bytes = encode (json_dumps 2 m)
           \<and> map unat bytes = map of_char (json_dumps 2 m)
           \<and> sublist (encode_basestring ''files'' @ '': []'') (json_dumps 2 m))"
proof -
  have h1: "is_dir plain_fs [''data'']"
    by (simp add: is_dir_def plain_fs_def)
  have s: "set (scandir plain_fs [''data'']) = {''notes.txt''}"
    by (simp add: scandir_def plain_fs_def)
  then have h2: "\<forall>n\<in>set (scandir plain_fs [''data'']). \<not> suffix ''.parquet'' n"
    by (simp add: suffix_def)
  have n: "map_of plain_fs ([''data''] @ [''manifest.json'']) = None"
    by (simp add: plain_fs_def)
  have d: "map_of plain_fs [''data''] = Some (Dir True)"
    by (simp add: plain_fs_def)
  from n d have h3: "(\<exists>c r b. map_of plain_fs ([''data''] @ [''manifest.json'']) = Some (File c r True b))
         \<or> (map_of plain_fs ([''data''] @ [''manifest.json'']) = None
            \<and> map_of plain_fs [''data''] = Some (Dir True))"
    by simp
  from no_data_files_empty_manifest [OF h1 h2 h3, of "JInt 1" example_now "[]"] h1 s n d
  show ?thesis
    by (intro conjI)
qed

text \<open>
  C9. A call of \<open>create_manifest\<close> that returns leaves one path changed,
  \<open>manifest.json\<close> in \<open>output_dir\<close>, which holds a regular file afterwards: the file system
  it leaves is the one it found with that one entry replaced or added, every other path
  holds what it held, and each data file matched holds the bytes it held.
\<close>

theorem only_manifest_written:
  assumes "create_manifest msv now fs output_dir stats = (Inr p, fs')"
  shows "p = output_dir @ [''manifest.json'']
    \<and> (\<exists>c r b. fs' = AList.update p (File c r True b) fs)
    \<and> (\<exists>c. read_bytes fs' p = Some c)
    \<and> fst ` set fs' = insert p (fst ` set fs)
    \<and> (\<forall>q. q \<noteq> p \<longrightarrow> map_of fs' q = map_of fs q)
    \<and> (\<forall>q\<in>set (path_glob fs output_dir ''*.parquet'').
          \<exists>c. read_bytes fs q = Some c \<and> read_bytes fs' q = Some c \<and> map_of fs' q = map_of fs q)"
proof -
  let ?ps = "sort (path_glob fs output_dir ''*.parquet'')"
  from create_manifest_Inr [OF assms] obtain es where
    scan: "scan_files fs ?ps [] = Inr es"
    and p: "p = output_dir @ [''manifest.json'']"
    and w: "write_text fs p (json_dumps 2 (manifest_record msv now stats es)) = Inr fs'"
    by blast
  have frame: "\<forall>q. q \<noteq> p \<longrightarrow> map_of fs' q = map_of fs q"
    using write_text_frame [OF w] by blast
  have data: "\<exists>c. read_bytes fs q = Some c \<and> read_bytes fs' q = Some c \<and> map_of fs' q = map_of fs q"
    if q: "q \<in> set (path_glob fs output_dir ''*.parquet'')" for q
  proof -
    from q have "q \<in> set ?ps" by simp
    from scan_files_fails [OF scan this] obtain c wr b where
      c: "map_of fs q = Some (File c True wr b)" by blast
    from q p have "q \<noteq> p" by (simp add: path_glob_not_manifest)
    with frame have "map_of fs' q = map_of fs q" by blast
    with c show ?thesis by (simp add: read_bytes_def)
  qed
  from write_text_Inr(1) [OF w] have "\<exists>c r b. fs' = AList.update p (File c r True b) fs"
    by blast
  with p write_text_read [OF w] write_text_keys [OF w] frame data show ?thesis
    by blast
qed

theorem only_manifest_written_witness:
  "create_manifest (JInt 1) example_now example_fs [''data''] [] =
      (Inr [''data'', ''manifest.json''],
       AList.update [''data'', ''manifest.json'']
        (File (encode (json_dumps 2 (manifest_record (JInt 1) example_now []
           [file_entry ''a.parquet'' 8 ''c34ab6abb7b2bb595bc25c3b388c872fd1d575819a8f55cc689510285e212385'',
            file_entry ''b.parquet'' 0 ''e3b0c44298fc1c149afbf4c8996fb92427ae41e4649b934ca495991b7852b855'']))) True True None)
        example_fs)
   \<and> set (path_glob example_fs [''data''] ''*.parquet'') =
         {[''data'', ''a.parquet''], [''data'', ''b.parquet'']}
   \<and> map_of (AList.update [''data'', ''manifest.json'']
        (File (encode (json_dumps 2 (manifest_record (JInt 1) example_now []
           [file_entry ''a.parquet'' 8 ''c34ab6abb7b2bb595bc25c3b388c872fd1d575819a8f55cc689510285e212385'',
            file_entry ''b.parquet'' 0 ''e3b0c44298fc1c149afbf4c8996fb92427ae41e4649b934ca495991b7852b855'']))) True True None)
        example_fs) [''data'', ''a.parquet''] = map_of example_fs [''data'', ''a.parquet'']
   \<and> map_of (AList.update [''data'', ''manifest.json'']
        (File (encode (json_dumps 2 (manifest_record (JInt 1) example_now []
           [file_entry ''a.parquet'' 8 ''c34ab6abb7b2bb595bc25c3b388c872fd1d575819a8f55cc689510285e212385'',
            file_entry ''b.parquet'' 0 ''e3b0c44298fc1c149afbf4c8996fb92427ae41e4649b934ca495991b7852b855'']))) True True None)
        example_fs) [''data'', ''sub'', ''c.parquet''] = map_of example_fs [''data'', ''sub'', ''c.parquet'']"
proof -
  let ?fs' = "AList.update [''data'', ''manifest.json'']
        (File (encode (json_dumps 2 (manifest_record (JInt 1) example_now []
           [file_entry ''a.parquet'' 8 ''c34ab6abb7b2bb595bc25c3b388c872fd1d575819a8f55cc689510285e212385'',
            file_entry ''b.parquet'' 0 ''e3b0c44298fc1c149afbf4c8996fb92427ae41e4649b934ca495991b7852b855'']))) True True None)
        example_fs"
  have g: "set (path_glob example_fs [''data''] ''*.parquet'') =
         {[''data'', ''a.parquet''], [''data'', ''b.parquet'']}"
    by (simp add: path_glob_def is_dir_def scandir_def example_fs_def insert_commute)
  from only_manifest_written [OF example_run [of "JInt 1" example_now "[]"]]
  have f: "\<forall>q. q \<noteq> [''data'', ''manifest.json''] \<longrightarrow> map_of ?fs' q = map_of example_fs q"
    by blast
  from f have "map_of ?fs' [''data'', ''a.parquet''] = map_of example_fs [''data'', ''a.parquet'']"
    by simp
  moreover from f have "map_of ?fs' [''data'', ''sub'', ''c.parquet'']
      = map_of example_fs [''data'', ''sub'', ''c.parquet'']"
    by simp
  ultimately show ?thesis
    using g example_run [of "JInt 1" example_now "[]"] by blast
qed

text \<open>
  C10. The paths \<open>create_manifest\<close> selects are the entries directly in \<open>output_dir\<close>
  whose name ends in \<open>.parquet\<close>, and no others: never \<open>manifest.json\<close>, whether or not a
  run has left one, and never a path below a subdirectory. When the call returns, the
  names of the entries in the manifest written are the names of those entries, each of
  which is a regular file, and \<open>manifest.json\<close> is not among them.
\<close>

theorem selection_is_flat_by_suffix:
  "set (path_glob fs output_dir ''*.parquet'') =
     (if is_dir fs output_dir
      then {output_dir @ [n] | n. output_dir @ [n] \<in> fst ` set fs \<and> suffix ''.parquet'' n}
      else {})
   \<and> output_dir @ [''manifest.json''] \<notin> set (path_glob fs output_dir ''*.parquet'')
   \<and> (\<forall>sub n rest. output_dir @ sub # n # rest \<notin> set (path_glob fs output_dir ''*.parquet''))
   \<and> (\<forall>msv now stats p fs'.
         create_manifest msv now fs output_dir stats = (Inr p, fs') \<longrightarrow>
         (\<exists>es names.
             read_bytes fs' p = Some (encode (json_dumps 2 (manifest_record msv now stats es)))
           \<and> list_all2 (\<lambda>n e. \<exists>nbytes digest. e = file_entry n nbytes digest) names es
           \<and> set names = {n. output_dir @ [n] \<in> fst ` set fs \<and> suffix ''.parquet'' n}
           \<and> (\<forall>n\<in>set names. \<exists>c. read_bytes fs (output_dir @ [n]) = Some c)
           \<and> ''manifest.json'' \<notin> set names))"
proof (intro conjI allI impI)
  show "set (path_glob fs output_dir ''*.parquet'') =
     (if is_dir fs output_dir
      then {output_dir @ [n] | n. output_dir @ [n] \<in> fst ` set fs \<and> suffix ''.parquet'' n}
      else {})"
    by (simp add: path_glob_set fnmatch_parquet)
next
  show "output_dir @ [''manifest.json''] \<notin> set (path_glob fs output_dir ''*.parquet'')"
    using path_glob_not_manifest [of "output_dir @ [''manifest.json'']" fs output_dir] by blast
next
  fix sub n rest
  show "output_dir @ sub # n # rest \<notin> set (path_glob fs output_dir ''*.parquet'')"
  proof
    assume "output_dir @ sub # n # rest \<in> set (path_glob fs output_dir ''*.parquet'')"
    from path_glob_children [OF this] obtain m where "output_dir @ sub # n # rest = output_dir @ [m]"
      by blast
    then show False by simp
  qed
next
  fix msv now stats p fs'
  assume run: "create_manifest msv now fs output_dir stats = (Inr p, fs')"
  let ?ps = "sort (path_glob fs output_dir ''*.parquet'')"
  from create_manifest_Inr [OF run] obtain es where
    scan: "scan_files fs ?ps [] = Inr es"
    and w: "write_text fs p (json_dumps 2 (manifest_record msv now stats es)) = Inr fs'"
    and p: "p = output_dir @ [''manifest.json'']"
    by blast
  from write_text_Inr(2) [OF w] p have dir: "is_dir fs output_dir"
    by simp
  have names: "list_all2 (\<lambda>n e. \<exists>nbytes digest. e = file_entry n nbytes digest) (map last ?ps) es"
    using scan by (rule scan_files_names)
  have "set (map last ?ps) = last ` {output_dir @ [n] | n. output_dir @ [n] \<in> fst ` set fs \<and> suffix ''.parquet'' n}"
    using dir by (simp add: path_glob_set fnmatch_parquet)
  also have "\<dots> = last ` (\<lambda>n. output_dir @ [n]) ` {n. output_dir @ [n] \<in> fst ` set fs \<and> suffix ''.parquet'' n}"
    by (rule arg_cong [where f = "\<lambda>S. last ` S"]) blast
  also have "\<dots> = {n. output_dir @ [n] \<in> fst ` set fs \<and> suffix ''.parquet'' n}"
    by (simp add: image_image)
  finally have set: "set (map last ?ps) = {n. output_dir @ [n] \<in> fst ` set fs \<and> suffix ''.parquet'' n}" .
  have files: "\<forall>n\<in>set (map last ?ps). \<exists>c. read_bytes fs (output_dir @ [n]) = Some c"
  proof
    fix n assume "n \<in> set (map last ?ps)"
    with set dir have "output_dir @ [n] \<in> set ?ps"
      by (simp add: path_glob_set fnmatch_parquet)
    from scan_files_fails [OF scan this] show "\<exists>c. read_bytes fs (output_dir @ [n]) = Some c"
      by (auto simp: read_bytes_def)
  qed
  have nm: "''manifest.json'' \<notin> set (map last ?ps)"
    unfolding set by (simp add: suffix_def)
  from write_text_read [OF w] names set files nm
  show "\<exists>es names.
             read_bytes fs' p = Some (encode (json_dumps 2 (manifest_record msv now stats es)))
           \<and> list_all2 (\<lambda>n e. \<exists>nbytes digest. e = file_entry n nbytes digest) names es
           \<and> set names = {n. output_dir @ [n] \<in> fst ` set fs \<and> suffix ''.parquet'' n}
           \<and> (\<forall>n\<in>set names. \<exists>c. read_bytes fs (output_dir @ [n]) = Some c)
           \<and> ''manifest.json'' \<notin> set names"
    by blast
qed

theorem selection_is_flat_by_suffix_witness:
  "is_dir example_fs [''data'']
   \<and> set (path_glob example_fs [''data''] ''*.parquet'') =
         {[''data'', ''a.parquet''], [''data'', ''b.parquet'']}
   \<and> [''data'', ''manifest.json''] \<notin> set (path_glob example_fs [''data''] ''*.parquet'')
   \<and> [''data'', ''sub'', ''c.parquet''] \<notin> set (path_glob example_fs [''data''] ''*.parquet'')
   \<and> create_manifest (JInt 1) example_now example_fs [''data''] [] =
      (Inr [''data'', ''manifest.json''],
       AList.update [''data'', ''manifest.json'']
        (File (encode (json_dumps 2 (manifest_record (JInt 1) example_now []
           [file_entry ''a.parquet'' 8 ''c34ab6abb7b2bb595bc25c3b388c872fd1d575819a8f55cc689510285e212385'',
            file_entry ''b.parquet'' 0 ''e3b0c44298fc1c149afbf4c8996fb92427ae41e4649b934ca495991b7852b855'']))) True True None)
        example_fs)
   \<and> (\<exists>es names.
          read_bytes (AList.update [''data'', ''manifest.json'']
            (File (encode (json_dumps 2 (manifest_record (JInt 1) example_now []
               [file_entry ''a.parquet'' 8 ''c34ab6abb7b2bb595bc25c3b388c872fd1d575819a8f55cc689510285e212385'',
                file_entry ''b.parquet'' 0 ''e3b0c44298fc1c149afbf4c8996fb92427ae41e4649b934ca495991b7852b855'']))) True True None)
            example_fs) [''data'', ''manifest.json'']
            = Some (encode (json_dumps 2 (manifest_record (JInt 1) example_now [] es)))
        \<and> list_all2 (\<lambda>n e. \<exists>nbytes digest. e = file_entry n nbytes digest) names es
        \<and> set names = {n. [''data''] @ [n] \<in> fst ` set example_fs \<and> suffix ''.parquet'' n}
        \<and> ''manifest.json'' \<notin> set names)"
proof -
  note t = selection_is_flat_by_suffix [of example_fs "[''data'']"]
  have d: "is_dir example_fs [''data'']"
    by (simp add: is_dir_def example_fs_def)
  have g: "set (path_glob example_fs [''data''] ''*.parquet'') =
         {[''data'', ''a.parquet''], [''data'', ''b.parquet'']}"
    by (simp add: path_glob_def is_dir_def scandir_def example_fs_def insert_commute)
  from t have "[''data''] @ [''manifest.json''] \<notin> set (path_glob example_fs [''data''] ''*.parquet'')"
    by blast
  then have m: "[''data'', ''manifest.json''] \<notin> set (path_glob example_fs [''data''] ''*.parquet'')"
    by simp
  from t have "[''data''] @ ''sub'' # ''c.parquet'' # [] \<notin> set (path_glob example_fs [''data''] ''*.parquet'')"
    by blast
  then have c: "[''data'', ''sub'', ''c.parquet''] \<notin> set (path_glob example_fs [''data''] ''*.parquet'')"
    by simp
  note run = example_run [of "JInt 1" example_now "[]"]
  from t [THEN conjunct2, THEN conjunct2, THEN conjunct2, rule_format, OF run]
  have "\<exists>es names.
          read_bytes (AList.update [''data'', ''manifest.json'']
            (File (encode (json_dumps 2 (manifest_record (JInt 1) example_now []
               [file_entry ''a.parquet'' 8 ''c34ab6abb7b2bb595bc25c3b388c872fd1d575819a8f55cc689510285e212385'',
                file_entry ''b.parquet'' 0 ''e3b0c44298fc1c149afbf4c8996fb92427ae41e4649b934ca495991b7852b855'']))) True True None)
            example_fs) [''data'', ''manifest.json'']
            = Some (encode (json_dumps 2 (manifest_record (JInt 1) example_now [] es)))
        \<and> list_all2 (\<lambda>n e. \<exists>nbytes digest. e = file_entry n nbytes digest) names es
        \<and> set names = {n. [''data''] @ [n] \<in> fst ` set example_fs \<and> suffix ''.parquet'' n}
        \<and> ''manifest.json'' \<notin> set names"
    by blast
  with d g m c run show ?thesis
    by blast
qed

end
